theory Spec2Isabelle
  imports Complex_Main "HOL-Library.List_Lexorder" "HOL-Library.Char_ord" "HOL-Library.AList"
    "HOL-Library.Multiset"
begin

section \<open>Errors, strings and HTTP headers\<close>

text \<open>
  Every \<^verbatim>\<open>fmt.Errorf\<close> / \<^verbatim>\<open>errors.New\<close> site of the package is one constructor;
  \<open>LibraryError\<close> stands for an error value produced by a library the package calls
  (wrp-go, mime, compress/*, msgp, bufio), \<open>Panic\<close> for a Go run-time panic.
\<close>

datatype error =
    NoMessagesProvided
  | RequestIsNil
  | ResponseIsNil
  | InvalidContentType error
  | MissingBoundary string
  | UnsupportedMediaType string
  | UnsupportedContentEncoding string
  | FailedToReadBody error
  | InvalidStyle "string list"
  | UnsupportedOctetStreamStyle string
  | NoAcceptableContentType
  | ErrNotMultipart
  | ErrMissingBoundary
  | Panic string
  | LibraryError string

text \<open>Go strings and byte slices are byte sequences.\<close>

type_synonym bytes = string

text \<open>
  A drained \<^verbatim>\<open>io.Reader\<close>: the bytes read up to EOF, or the error the read side
  reports (the \<^verbatim>\<open>io.Pipe\<close> closed with \<^verbatim>\<open>CloseWithError\<close>).
\<close>

type_synonym reader = "error + bytes"

text \<open>\<^verbatim>\<open>strings.Split(s, sep)\<close> for a one-byte separator.\<close>

fun strings_Split :: "string \<Rightarrow> char \<Rightarrow> string list" where
  "strings_Split [] c = [[]]"
| "strings_Split (x # xs) c =
     (if x = c then [] # strings_Split xs c
      else (case strings_Split xs c of
              [] \<Rightarrow> [[x]]
            | y # ys \<Rightarrow> (x # y) # ys))"

text \<open>\<^verbatim>\<open>strings.SplitN(s, sep, 2)\<close> for a one-byte separator: cut at the first one.\<close>

definition strings_SplitN2 :: "string \<Rightarrow> char \<Rightarrow> string list" where
  "strings_SplitN2 s c =
     (if c \<in> set s then [takeWhile (\<lambda>y. y \<noteq> c) s, tl (dropWhile (\<lambda>y. y \<noteq> c) s)]
      else [s])"

fun strings_Join :: "string list \<Rightarrow> string \<Rightarrow> string" where
  "strings_Join [] sep = []"
| "strings_Join [x] sep = x"
| "strings_Join (x # y # ys) sep = x @ sep @ strings_Join (y # ys) sep"

definition strings_HasPrefix :: "string \<Rightarrow> string \<Rightarrow> bool" where
  "strings_HasPrefix s p = (take (length p) s = p)"

definition strings_TrimPrefix :: "string \<Rightarrow> string \<Rightarrow> string" where
  "strings_TrimPrefix s p = (if strings_HasPrefix s p then drop (length p) s else s)"

text \<open>
  \<^verbatim>\<open>http.Header\<close> is a \<^verbatim>\<open>map[string][]string\<close>; a missing key and an empty value
  list are the same to \<^verbatim>\<open>Get\<close> and \<^verbatim>\<open>Values\<close>. Every key the package passes is
  already in canonical MIME form, so canonicalisation is the identity on them.
\<close>

type_synonym Header = "string \<Rightarrow> string list"

definition emptyHeader :: Header where
  "emptyHeader = (\<lambda>k. [])"

definition Header_Get :: "Header \<Rightarrow> string \<Rightarrow> string" where
  "Header_Get h k = (case h k of [] \<Rightarrow> [] | v # vs \<Rightarrow> v)"

definition Header_Values :: "Header \<Rightarrow> string \<Rightarrow> string list" where
  "Header_Values h k = h k"

definition Header_Set :: "Header \<Rightarrow> string \<Rightarrow> string \<Rightarrow> Header" where
  "Header_Set h k v = h(k := [v])"

definition Header_Add :: "Header \<Rightarrow> string \<Rightarrow> string \<Rightarrow> Header" where
  "Header_Add h k v = h(k := h k @ [v])"

text \<open>\<^verbatim>\<open>fmt.Sprintf("%d", v)\<close> and \<^verbatim>\<open>strconv.ParseInt(s, 10, 64)\<close>.\<close>

definition digit :: "nat \<Rightarrow> char" where
  "digit d = char_of (48 + d)"

fun formatNat :: "nat \<Rightarrow> string" where
  "formatNat n = (if n < 10 then [digit n] else formatNat (n div 10) @ [digit (n mod 10)])"

declare formatNat.simps [simp del]

definition formatInt :: "int \<Rightarrow> string" where
  "formatInt v = (if v < 0 then CHR ''-'' # formatNat (nat (- v)) else formatNat (nat v))"

definition isDigit :: "char \<Rightarrow> bool" where
  "isDigit c = (48 \<le> (of_char c :: nat) \<and> (of_char c :: nat) \<le> 57)"

definition digitsValue :: "string \<Rightarrow> nat" where
  "digitsValue ds = foldl (\<lambda>a c. 10 * a + ((of_char c :: nat) - 48)) 0 ds"

definition ParseInt :: "string \<Rightarrow> int option" where
  "ParseInt s =
     (let neg = (s \<noteq> [] \<and> hd s = CHR ''-'');
          ds = (if s \<noteq> [] \<and> (hd s = CHR ''+'' \<or> hd s = CHR ''-'') then tl s else s);
          v = (if neg then - int (digitsValue ds) else int (digitsValue ds))
      in if ds \<noteq> [] \<and> list_all isDigit ds \<and> - (2 ^ 63) \<le> v \<and> v < 2 ^ 63 then Some v
         else None)"

section \<open>The header style table (header.go)\<close>

type_synonym hdr = "string list"

fun hdr_Get :: "hdr \<Rightarrow> Header \<Rightarrow> string" where
  "hdr_Get [] headers = []"
| "hdr_Get (key # h) headers =
     (if Header_Get headers key \<noteq> [] then Header_Get headers key else hdr_Get h headers)"

fun hdr_Values :: "hdr \<Rightarrow> Header \<Rightarrow> string list" where
  "hdr_Values [] headers = []"
| "hdr_Values (key # h) headers = Header_Values headers key @ hdr_Values h headers"

definition styleXXmidt :: string where "styleXXmidt = ''X-Xmidt''"
definition styleXMidt :: string where "styleXMidt = ''X-Midt''"
definition styleXmidt :: string where "styleXmidt = ''Xmidt''"
definition styleXWebpa :: string where "styleXWebpa = ''X-Webpa''"

text \<open>
  \<^verbatim>\<open>hdr.As\<close> indexes the table positionally; every table below has at least three
  entries, so the reads at 0, 1 and 2 are in range.
\<close>

definition hdr_As :: "hdr \<Rightarrow> string \<Rightarrow> string" where
  "hdr_As h s =
     (if s = ''X-Xmidt'' then h ! 0
      else if s = ''X-Midt'' then h ! 1
      else if s = ''Xmidt'' then h ! 2
      else if s = ''X-Webpa'' then (if length h = 4 then h ! 3 else h ! 0)
      else [])"

definition messageTypeHeader :: hdr where
  "messageTypeHeader = [''X-Xmidt-Message-Type'', ''X-Midt-Message-Type'', ''Xmidt-Message-Type'']"
definition transactionUuidHeader :: hdr where
  "transactionUuidHeader =
     [''X-Xmidt-Transaction-Uuid'', ''X-Midt-Transaction-Uuid'', ''Xmidt-Transaction-Uuid'']"
definition statusHeader :: hdr where
  "statusHeader = [''X-Xmidt-Status'', ''X-Midt-Status'', ''Xmidt-Status'']"
definition rdrHeader :: hdr where
  "rdrHeader = [''X-Xmidt-Request-Delivery-Response'', ''X-Midt-Request-Delivery-Response'',
                ''Xmidt-Request-Delivery-Response'']"
definition pathHeader :: hdr where
  "pathHeader = [''X-Xmidt-Path'', ''X-Midt-Path'', ''Xmidt-Path'']"
definition sourceHeader :: hdr where
  "sourceHeader = [''X-Xmidt-Source'', ''X-Midt-Source'', ''Xmidt-Source'']"
definition destinationHeader :: hdr where
  "destinationHeader =
     [''X-Xmidt-Destination'', ''X-Midt-Destination'', ''Xmidt-Destination'', ''X-Webpa-Device-Name'']"
definition acceptHeader :: hdr where
  "acceptHeader = [''X-Xmidt-Accept'', ''X-Midt-Accept'', ''Xmidt-Accept'']"
definition metadataHeader :: hdr where
  "metadataHeader = [''X-Xmidt-Metadata'', ''X-Midt-Metadata'', ''Xmidt-Metadata'']"
definition partnerIdHeader :: hdr where
  "partnerIdHeader = [''X-Xmidt-Partner-Id'', ''X-Midt-Partner-Id'', ''Xmidt-Partner-Id'']"
definition sessionIdHeader :: hdr where
  "sessionIdHeader = [''X-Xmidt-Session-Id'', ''X-Midt-Session-Id'', ''Xmidt-Session-Id'']"
definition headersHeader :: hdr where
  "headersHeader = [''X-Xmidt-Headers'', ''X-Midt-Headers'', ''Xmidt-Headers'']"
definition serviceNameHeader :: hdr where
  "serviceNameHeader = [''X-Xmidt-Service-Name'', ''X-Midt-Service-Name'', ''Xmidt-Service-Name'']"
definition urlHeader :: hdr where
  "urlHeader = [''X-Xmidt-Url'', ''X-Midt-Url'', ''Xmidt-Url'']"

section \<open>Messages and the library interface\<close>

text \<open>
  \<^verbatim>\<open>wrp.Message\<close> with the fields the package reads and writes. \<open>Status\<close> and
  \<open>RequestDeliveryResponse\<close> are \<^verbatim>\<open>*int64\<close>. \<open>Metadata\<close> is a Go map: the
  association list holds its entries in the order one \<^verbatim>\<open>range\<close> over it visits
  them, and two messages are compared on the map it denotes.
\<close>

record message =
  Type :: int
  Source :: string
  Destination :: string
  TransactionUUID :: string
  Accept :: string
  Status :: "int option"
  RequestDeliveryResponse :: "int option"
  Headers :: "string list"
  Metadata :: "(string \<times> string) list"
  Path :: string
  Payload :: bytes
  ServiceName :: string
  URL :: string
  PartnerIDs :: "string list"
  SessionID :: string

definition zeroMessage :: message where
  "zeroMessage = \<lparr> Type = 0, Source = [], Destination = [], TransactionUUID = [], Accept = [],
     Status = None, RequestDeliveryResponse = None, Headers = [], Metadata = [], Path = [],
     Payload = [], ServiceName = [], URL = [], PartnerIDs = [], SessionID = [] \<rparr>"

text \<open>A \<^verbatim>\<open>wrp.Processor\<close>, as an opaque handle.\<close>

datatype processor = Processor nat

datatype Format = JSON | Msgpack

text \<open>
  The \<^verbatim>\<open>float64\<close> values: the finite ones as the rationals they denote (the two
  zeros compare equal and are one value here), the two infinities and NaN.
  \<^verbatim>\<open>a > b\<close> is false as soon as one side is NaN. The constant \<^verbatim>\<open>1.0\<close> is written
  \<open>1\<close>.
\<close>

datatype float64 = NaN | NegInf | Finite rat | PosInf

fun float64_gt :: "float64 \<Rightarrow> float64 \<Rightarrow> bool" where
  "float64_gt NaN b = False"
| "float64_gt a NaN = False"
| "float64_gt PosInf PosInf = False"
| "float64_gt PosInf b = True"
| "float64_gt a PosInf = False"
| "float64_gt NegInf b = False"
| "float64_gt (Finite a) NegInf = True"
| "float64_gt (Finite a) (Finite b) = (b < a)"

instantiation float64 :: one
begin

definition one_float64 :: float64 where
  "one_float64 = Finite 1"

instance ..

end

text \<open>\<^verbatim>\<open>acceptType\<close> of negotiate.go: one parsed Accept media type and its parameters.\<close>

record acceptType =
  Value :: string
  Params :: "(string \<times> string) list"
  Q :: float64

text \<open>
  The functions of other packages that the code calls, taken as parameters:
  \<^verbatim>\<open>mime.ParseMediaType\<close>, \<^verbatim>\<open>strconv.ParseFloat\<close> (\<open>None\<close> when it returns an error),
  \<^verbatim>\<open>strings.TrimSpace\<close>, \<^verbatim>\<open>strings.ToLower\<close>, \<^verbatim>\<open>hdr.WhichStyle\<close> (declared in a
  revision of header.go that is not at hand), the wrp-go message-type names, validation
  (\<^verbatim>\<open>Union.To\<close>, \<^verbatim>\<open>Message.Validate\<close>) and codecs, the compress/* writers and readers,
  the mime/multipart writer (with the random boundary it picks) and reader, the msgp
  array and bin framing, \<^verbatim>\<open>bufio.Scanner\<close>, and \<^verbatim>\<open>sort.SliceStable\<close> (given
  the \<^verbatim>\<open>less\<close> function as a relation on the elements it compares).
\<close>

record ext =
  ParseMediaType :: "string \<Rightarrow> error + string \<times> (string \<times> string) list"
  ParseFloat :: "string \<Rightarrow> float64 option"
  TrimSpace :: "string \<Rightarrow> string"
  ToLower :: "string \<Rightarrow> string"
  WhichStyle :: "hdr \<Rightarrow> Header \<Rightarrow> string"
  FriendlyName :: "int \<Rightarrow> string"
  StringToMessageType :: "string \<Rightarrow> int"
  Validate :: "processor list \<Rightarrow> message \<Rightarrow> error option"
  Encode :: "Format \<Rightarrow> processor list \<Rightarrow> message \<Rightarrow> error + bytes"
  Decode :: "Format \<Rightarrow> processor list \<Rightarrow> bytes \<Rightarrow> error + message"
  NewGzipWriter :: "int \<Rightarrow> error + (bytes \<Rightarrow> bytes)"
  NewFlateWriter :: "int \<Rightarrow> error + (bytes \<Rightarrow> bytes)"
  NewZlibWriter :: "int \<Rightarrow> error + (bytes \<Rightarrow> bytes)"
  NewGzipReader :: "bytes \<Rightarrow> error + bytes"
  NewFlateReader :: "bytes \<Rightarrow> error + bytes"
  NewZlibReader :: "bytes \<Rightarrow> error + bytes"
  Boundary :: string
  MultipartWrite :: "string \<Rightarrow> (Header \<times> bytes) list \<Rightarrow> bytes"
  MultipartRead :: "string \<Rightarrow> bytes \<Rightarrow> (Header \<times> bytes) list \<times> error option"
  WriteArrayHeader :: "nat \<Rightarrow> bytes"
  WriteBytes :: "bytes \<Rightarrow> bytes"
  ReadArrayHeader :: "bytes \<Rightarrow> error + nat \<times> bytes"
  ReadBytes :: "bytes \<Rightarrow> error + bytes \<times> bytes"
  ScanLines :: "bytes \<Rightarrow> bytes list \<times> error option"
  SliceStable :: "(acceptType \<Rightarrow> acceptType \<Rightarrow> bool) \<Rightarrow> acceptType list \<Rightarrow> acceptType list"

text \<open>A Go map lookup: a missing key reads as the empty string.\<close>

definition param :: "(string \<times> string) list \<Rightarrow> string \<Rightarrow> string" where
  "param ps k = (case map_of ps k of None \<Rightarrow> [] | Some v \<Rightarrow> v)"

section \<open>Media types of the encoder and decoder (mediatype.go)\<close>

type_synonym mediaType = string

definition mtJSON :: mediaType where "mtJSON = ''application/wrp+json''"
definition mtMsgpack :: mediaType where "mtMsgpack = ''application/wrp+msgpack''"
definition mtOctetStream :: mediaType where "mtOctetStream = ''application/wrp+octet-stream''"
definition mtJSONL :: mediaType where "mtJSONL = ''application/wrp+jsonl''"
definition mtMsgpackL :: mediaType where "mtMsgpackL = ''application/wrp+msgpackl''"

section \<open>Encoder configuration (options.go, NewEncoder)\<close>

text \<open>
  The \<^verbatim>\<open>compressor\<close> field is a closure over the level an option captured;
  \<open>NilCompressor\<close> is the zero value of the field.
\<close>

datatype compressor =
    NilCompressor
  | NopWriteCloser
  | GzipWriterLevel int
  | FlateWriter int
  | ZlibWriterLevel int

record Encoder =
  mt :: mediaType
  compressor :: compressor
  encoding :: string
  validator :: "processor list"
  style :: string
  maxItems :: int

definition zeroEncoder :: Encoder where
  "zeroEncoder = \<lparr> mt = [], compressor = NilCompressor, encoding = [], validator = [],
                    style = [], maxItems = 0 \<rparr>"

text \<open>
  The options of options.go; the list arguments are the variadic parameters.
  \<^verbatim>\<open>gzip.DefaultCompression\<close>, \<^verbatim>\<open>flate.DefaultCompression\<close> and
  \<^verbatim>\<open>zlib.DefaultCompression\<close> are all \<open>-1\<close>.
\<close>

datatype EncoderOption =
    AsJSON
  | AsMsgpack
  | AsOctetStream "string list"
  | AsJSONL
  | AsMsgpackL
  | EncodeGzip "int list"
  | EncodeDeflate "int list"
  | EncodeZlib "int list"
  | EncodeNoCompression
  | EncodeValidators "processor list"
  | WithMaxItemsPerChunk int

fun apply_option :: "EncoderOption \<Rightarrow> Encoder \<Rightarrow> error + Encoder" where
  "apply_option AsJSON e = Inr (e\<lparr>mt := mtJSON\<rparr>)"
| "apply_option AsMsgpack e = Inr (e\<lparr>mt := mtMsgpack\<rparr>)"
| "apply_option (AsOctetStream headerStyle) e =
     (let hs = headerStyle @ [styleXWebpa] in
      if hd hs = styleXXmidt \<or> hd hs = styleXMidt \<or> hd hs = styleXmidt \<or> hd hs = styleXWebpa
      then Inr (e\<lparr>mt := mtOctetStream, style := hd hs\<rparr>)
      else Inl (InvalidStyle hs))"
| "apply_option AsJSONL e = Inr (e\<lparr>mt := mtJSONL\<rparr>)"
| "apply_option AsMsgpackL e = Inr (e\<lparr>mt := mtMsgpackL\<rparr>)"
| "apply_option (EncodeGzip level) e =
     Inr (e\<lparr>compressor := GzipWriterLevel (hd (level @ [- 1])), encoding := ''gzip''\<rparr>)"
| "apply_option (EncodeDeflate level) e =
     Inr (e\<lparr>compressor := FlateWriter (hd (level @ [- 1])), encoding := ''deflate''\<rparr>)"
| "apply_option (EncodeZlib level) e =
     Inr (e\<lparr>compressor := ZlibWriterLevel (hd (level @ [- 1])), encoding := ''zlib''\<rparr>)"
| "apply_option EncodeNoCompression e =
     Inr (e\<lparr>compressor := NopWriteCloser, encoding := ''identity''\<rparr>)"
| "apply_option (EncodeValidators v) e = Inr (e\<lparr>validator := validator e @ v\<rparr>)"
| "apply_option (WithMaxItemsPerChunk n) e =
     Inr (e\<lparr>maxItems := (if n = 0 then 1000 else n)\<rparr>)"

text \<open>The loop of \<^verbatim>\<open>NewEncoder\<close>; a nil option (\<open>None\<close>) is skipped.\<close>

fun applyOptions :: "EncoderOption option list \<Rightarrow> Encoder \<Rightarrow> error + Encoder" where
  "applyOptions [] e = Inr e"
| "applyOptions (None # opts) e = applyOptions opts e"
| "applyOptions (Some opt # opts) e =
     (case apply_option opt e of
        Inl err \<Rightarrow> Inl err
      | Inr e' \<Rightarrow> applyOptions opts e')"

definition defaults :: "EncoderOption option list" where
  "defaults = [Some AsMsgpack, Some EncodeNoCompression, Some (WithMaxItemsPerChunk 0)]"

definition NewEncoder :: "EncoderOption option list \<Rightarrow> error + Encoder" where
  "NewEncoder opts = applyOptions (defaults @ opts) zeroEncoder"

section \<open>Encoding (encode.go, header.go)\<close>

definition getHeaders :: "Encoder \<Rightarrow> Header \<Rightarrow> Header" where
  "getHeaders e h =
     (let h0 = Header_Set h ''Content-Type'' (mt e) in
      if encoding e \<noteq> [] \<and> encoding e \<noteq> ''identity''
      then Header_Set h0 ''Content-Encoding'' (encoding e)
      else h0)"

definition newCompressor :: "ext \<Rightarrow> compressor \<Rightarrow> error + (bytes \<Rightarrow> bytes)" where
  "newCompressor x c =
     (case c of
        NilCompressor \<Rightarrow> Inl (Panic ''nil func'')
      | NopWriteCloser \<Rightarrow> Inr (\<lambda>b. b)
      | GzipWriterLevel l \<Rightarrow> NewGzipWriter x l
      | FlateWriter l \<Rightarrow> NewFlateWriter x l
      | ZlibWriterLevel l \<Rightarrow> NewZlibWriter x l)"

text \<open>
  The block every producer goroutine runs: wrap the writer with the compressor, and if
  that succeeded write the content through it and close it.
\<close>

definition compressed :: "ext \<Rightarrow> Encoder \<Rightarrow> error + bytes \<Rightarrow> reader" where
  "compressed x e content =
     (case newCompressor x (compressor e) of
        Inl err \<Rightarrow> Inl err
      | Inr cw \<Rightarrow> (case content of Inl err \<Rightarrow> Inl err | Inr b \<Rightarrow> Inr (cw b)))"

text \<open>
  A \<^verbatim>\<open>for _, msg := range msgs\<close> loop that creates one multipart part per element and
  closes the pipe with the first error.
\<close>

fun writeParts :: "('a \<Rightarrow> error + 'b) \<Rightarrow> 'a list \<Rightarrow> error + 'b list" where
  "writeParts mk [] = Inr []"
| "writeParts mk (m # ms) =
     (case mk m of
        Inl err \<Rightarrow> Inl err
      | Inr p \<Rightarrow> (case writeParts mk ms of Inl err \<Rightarrow> Inl err | Inr ps \<Rightarrow> Inr (p # ps)))"

definition closeMultipart :: "ext \<Rightarrow> error + (Header \<times> bytes) list \<Rightarrow> reader" where
  "closeMultipart x r =
     (case r of Inl err \<Rightarrow> Inl err | Inr ps \<Rightarrow> Inr (MultipartWrite x (Boundary x) ps))"

definition asPart :: "Header \<Rightarrow> reader \<Rightarrow> error + Header \<times> bytes" where
  "asPart h r = (case r of Inl err \<Rightarrow> Inl err | Inr b \<Rightarrow> Inr (h, b))"

fun asFormatSingle :: "ext \<Rightarrow> Encoder \<Rightarrow> Format \<Rightarrow> message list \<Rightarrow> reader" where
  "asFormatSingle x e f [] = Inl (Panic ''index out of range'')"
| "asFormatSingle x e f (m # ms) = compressed x e (Encode x f (validator e) m)"

definition formatPart :: "ext \<Rightarrow> Encoder \<Rightarrow> Format \<Rightarrow> message \<Rightarrow> error + Header \<times> bytes" where
  "formatPart x e f msg =
     asPart (getHeaders e emptyHeader) (compressed x e (Encode x f (validator e) msg))"

definition asFormatMultiPart :: "ext \<Rightarrow> Encoder \<Rightarrow> Format \<Rightarrow> message list \<Rightarrow> string \<times> reader" where
  "asFormatMultiPart x e f msgs =
     (Boundary x, closeMultipart x (writeParts (formatPart x e f) msgs))"

definition asFormat :: "ext \<Rightarrow> Encoder \<Rightarrow> Format \<Rightarrow> message list \<Rightarrow> string \<times> reader" where
  "asFormat x e f msgs =
     (if length msgs = 1 then ([], asFormatSingle x e f msgs) else asFormatMultiPart x e f msgs)"

definition toStringHeader :: "string \<Rightarrow> hdr \<Rightarrow> string \<Rightarrow> Header \<Rightarrow> Header" where
  "toStringHeader typ key v headers =
     (if v \<noteq> [] then Header_Set headers (hdr_As key typ) v else headers)"

definition toIntPtrHeader :: "string \<Rightarrow> hdr \<Rightarrow> int option \<Rightarrow> Header \<Rightarrow> Header" where
  "toIntPtrHeader typ key v headers =
     (case v of None \<Rightarrow> headers | Some i \<Rightarrow> Header_Set headers (hdr_As key typ) (formatInt i))"

fun addMetadata :: "string \<Rightarrow> (string \<times> string) list \<Rightarrow> Header \<Rightarrow> Header" where
  "addMetadata typ [] headers = headers"
| "addMetadata typ ((k, v) # md) headers =
     addMetadata typ md
       (if v \<noteq> [] then Header_Add headers (hdr_As metadataHeader typ) (k @ '':'' @ v)
        else headers)"

fun addHeaders :: "string \<Rightarrow> string list \<Rightarrow> Header \<Rightarrow> Header" where
  "addHeaders typ [] headers = headers"
| "addHeaders typ (v # vs) headers =
     addHeaders typ vs
       (if v \<noteq> [] then Header_Add headers (hdr_As headersHeader typ) v else headers)"

text \<open>The header map \<^verbatim>\<open>toHeadersForm\<close> builds from the converted message.\<close>

definition projectHeaders :: "ext \<Rightarrow> message \<Rightarrow> string \<Rightarrow> Header" where
  "projectHeaders x msg typ =
     (let h1 = Header_Set emptyHeader (hdr_As messageTypeHeader typ) (FriendlyName x (Type msg));
          h2 = toIntPtrHeader typ statusHeader (Status msg) h1;
          h3 = toIntPtrHeader typ rdrHeader (RequestDeliveryResponse msg) h2;
          h4 = toStringHeader typ transactionUuidHeader (TransactionUUID msg) h3;
          h5 = toStringHeader typ pathHeader (Path msg) h4;
          h6 = toStringHeader typ sourceHeader (Source msg) h5;
          h7 = toStringHeader typ destinationHeader (Destination msg) h6;
          h8 = toStringHeader typ acceptHeader (Accept msg) h7;
          h9 = toStringHeader typ sessionIdHeader (SessionID msg) h8;
          h10 = toStringHeader typ serviceNameHeader (ServiceName msg) h9;
          h11 = toStringHeader typ urlHeader (URL msg) h10;
          h12 = addMetadata typ (Metadata msg) h11;
          partners = strings_Join (PartnerIDs msg) '','';
          h13 = (if partners \<noteq> []
                 then Header_Set h12 (hdr_As partnerIdHeader typ) partners else h12)
      in addHeaders typ (Headers msg) h13)"

definition toHeadersForm ::
  "ext \<Rightarrow> message \<Rightarrow> string \<Rightarrow> processor list \<Rightarrow> error + Header \<times> bytes" where
  "toHeadersForm x msg typ validators =
     (case Validate x validators msg of
        Some err \<Rightarrow> Inl err
      | None \<Rightarrow> Inr (projectHeaders x msg typ, Payload msg))"

fun asOctetStreamSingle :: "ext \<Rightarrow> Encoder \<Rightarrow> message list \<Rightarrow> error + Header \<times> reader" where
  "asOctetStreamSingle x e [] = Inl (Panic ''index out of range'')"
| "asOctetStreamSingle x e (m # ms) =
     (case toHeadersForm x m (style e) (validator e) of
        Inl err \<Rightarrow> Inl err
      | Inr (headers, payload) \<Rightarrow> Inr (getHeaders e headers, compressed x e (Inr payload)))"

definition octetPart :: "ext \<Rightarrow> Encoder \<Rightarrow> message \<Rightarrow> error + Header \<times> bytes" where
  "octetPart x e msg =
     (case toHeadersForm x msg (style e) (validator e) of
        Inl err \<Rightarrow> Inl err
      | Inr (headers, payload) \<Rightarrow> asPart (getHeaders e headers) (compressed x e (Inr payload)))"

definition asOctetStreamMultiPart ::
  "ext \<Rightarrow> Encoder \<Rightarrow> message list \<Rightarrow> error + Header \<times> string \<times> reader" where
  "asOctetStreamMultiPart x e msgs =
     Inr (getHeaders e emptyHeader, Boundary x, closeMultipart x (writeParts (octetPart x e) msgs))"

definition asOctetStream ::
  "ext \<Rightarrow> Encoder \<Rightarrow> message list \<Rightarrow> error + Header \<times> string \<times> reader" where
  "asOctetStream x e msgs =
     (if length msgs = 1
      then (case asOctetStreamSingle x e msgs of
              Inl err \<Rightarrow> Inl err
            | Inr (h, body) \<Rightarrow> Inr (h, [], body))
      else asOctetStreamMultiPart x e msgs)"

text \<open>
  \<^verbatim>\<open>chunked\<close> and its \<^verbatim>\<open>Next\<close> method. Go slices \<^verbatim>\<open>c.list[c.current:end]\<close>:
  a high bound below the low bound panics; an empty but in-range slice is not nil.
  \<open>None\<close> is the nil slice that ends the iteration.
\<close>

record 'a chunked =
  clist :: "'a list"
  perChunk :: int
  current :: int

definition Next :: "'a chunked \<Rightarrow> error + 'a list option \<times> 'a chunked" where
  "Next c =
     (if current c \<ge> int (length (clist c)) then Inr (None, c)
      else
        (let end0 = current c + perChunk c;
             end1 = (if end0 > int (length (clist c)) then int (length (clist c)) else end0)
         in if current c < 0 \<or> end1 < current c
            then Inl (Panic ''slice bounds out of range'')
            else Inr (Some (take (nat (end1 - current c)) (drop (nat (current c)) (clist c))),
                      c\<lparr>current := end1\<rparr>)))"

text \<open>
  The \<^verbatim>\<open>for { msgs := items.Next(); if msgs == nil { return } ... }\<close> loop of
  \<^verbatim>\<open>chunkedMultipart\<close>; \<open>fn\<close> produces the part of one chunk. The loop need not end
  (a chunk size of zero never advances), so its result is optional.
\<close>

partial_function (option) chunkLoop ::
  "('a list \<Rightarrow> error + 'b) \<Rightarrow> 'a chunked \<Rightarrow> 'b list \<Rightarrow> (error + 'b list) option" where
  "chunkLoop fn c acc =
     (case Next c of
        Inl err \<Rightarrow> Some (Inl err)
      | Inr (None, c') \<Rightarrow> Some (Inr acc)
      | Inr (Some msgs, c') \<Rightarrow>
          (case fn msgs of
             Inl err \<Rightarrow> Some (Inl err)
           | Inr p \<Rightarrow> chunkLoop fn c' (acc @ [p])))"

declare chunkLoop.simps [code]

text \<open>The body of that loop: one part, holding the compressed output of \<open>fn\<close>.\<close>

definition chunkPart ::
  "ext \<Rightarrow> Encoder \<Rightarrow> (message list \<Rightarrow> error + bytes) \<Rightarrow> message list \<Rightarrow> error + Header \<times> bytes" where
  "chunkPart x e fn ch = asPart (getHeaders e emptyHeader) (compressed x e (fn ch))"

definition chunkedMultipart ::
  "ext \<Rightarrow> Encoder \<Rightarrow> (message list \<Rightarrow> error + bytes) \<Rightarrow> message list \<Rightarrow> string \<times> reader option" where
  "chunkedMultipart x e fn msgs =
     (Boundary x,
      map_option (closeMultipart x)
        (chunkLoop (chunkPart x e fn)
           \<lparr>clist = msgs, perChunk = maxItems e, current = 0\<rparr> []))"

text \<open>
  The chunk list as the specification words it: consecutive runs of \<open>c\<close> elements,
  the last one holding what is left. The loop above is compared with it below.
\<close>

function chunksOf :: "nat \<Rightarrow> 'a list \<Rightarrow> 'a list list" where
  "chunksOf c xs = (if c = 0 \<or> xs = [] then [] else take c xs # chunksOf c (drop c xs))"
  by pat_completeness auto
termination
  by (relation "measure (\<lambda>(c, xs). length xs)") auto

declare chunksOf.simps [simp del]

fun asJSONLArray :: "ext \<Rightarrow> Encoder \<Rightarrow> message list \<Rightarrow> error + bytes" where
  "asJSONLArray x e [] = Inr []"
| "asJSONLArray x e (msg # msgs) =
     (case Encode x JSON (validator e) msg of
        Inl err \<Rightarrow> Inl err
      | Inr b \<Rightarrow> (case asJSONLArray x e msgs of Inl err \<Rightarrow> Inl err | Inr bs \<Rightarrow> Inr (b @ bs)))"

fun msgpackItems :: "ext \<Rightarrow> Encoder \<Rightarrow> message list \<Rightarrow> error + bytes" where
  "msgpackItems x e [] = Inr []"
| "msgpackItems x e (msg # msgs) =
     (case Encode x Msgpack (validator e) msg of
        Inl err \<Rightarrow> Inl err
      | Inr item \<Rightarrow>
          (case msgpackItems x e msgs of
             Inl err \<Rightarrow> Inl err
           | Inr bs \<Rightarrow> Inr (WriteBytes x item @ bs)))"

text \<open>\<^verbatim>\<open>uint32(len(msgs))\<close> truncates the length to 32 bits.\<close>

definition asMsgpackLArray :: "ext \<Rightarrow> Encoder \<Rightarrow> message list \<Rightarrow> error + bytes" where
  "asMsgpackLArray x e msgs =
     (case msgpackItems x e msgs of
        Inl err \<Rightarrow> Inl err
      | Inr bs \<Rightarrow> Inr (WriteArrayHeader x (length msgs mod 2 ^ 32) @ bs))"

definition asMsgpackLSingle :: "ext \<Rightarrow> Encoder \<Rightarrow> message list \<Rightarrow> reader" where
  "asMsgpackLSingle x e msgs = compressed x e (asMsgpackLArray x e msgs)"

definition asJSONLSingle :: "ext \<Rightarrow> Encoder \<Rightarrow> message list \<Rightarrow> reader" where
  "asJSONLSingle x e msgs = compressed x e (asJSONLArray x e msgs)"

definition asMsgpackL :: "ext \<Rightarrow> Encoder \<Rightarrow> message list \<Rightarrow> string \<times> reader option" where
  "asMsgpackL x e msgs =
     (if maxItems e < 1 \<or> int (length msgs) \<le> maxItems e
      then ([], Some (asMsgpackLSingle x e msgs))
      else chunkedMultipart x e (asMsgpackLArray x e) msgs)"

definition asJSONL :: "ext \<Rightarrow> Encoder \<Rightarrow> message list \<Rightarrow> string \<times> reader option" where
  "asJSONL x e msgs =
     (if maxItems e < 1 \<or> int (length msgs) \<le> maxItems e
      then ([], Some (asJSONLSingle x e msgs))
      else chunkedMultipart x e (asJSONLArray x e) msgs)"

text \<open>
  \<^verbatim>\<open>ToParts\<close> returns the headers and the read end of a pipe that a goroutine fills.
  The result here pairs the headers with the outcome of draining that pipe; \<open>None\<close>
  means that draining never ends (no goroutine writes or closes the pipe, or the
  producer loops for ever).
\<close>

definition setBoundary :: "Header \<Rightarrow> string \<Rightarrow> Header" where
  "setBoundary headers boundary =
     (if boundary \<noteq> []
      then Header_Set headers ''Content-Type'' (''multipart/mixed; boundary='' @ boundary)
      else headers)"

definition finish :: "Header \<Rightarrow> string \<times> reader option \<Rightarrow> (error + Header \<times> reader) option" where
  "finish headers r =
     (case r of (boundary, body) \<Rightarrow>
        map_option (\<lambda>b. Inr (setBoundary headers boundary, b)) body)"

definition ToParts :: "ext \<Rightarrow> Encoder \<Rightarrow> message list \<Rightarrow> (error + Header \<times> reader) option" where
  "ToParts x e msgs =
     (if length msgs = 0 then Some (Inl NoMessagesProvided)
      else
        (let headers = getHeaders e emptyHeader in
         if mt e = mtJSON then
           (case asFormat x e JSON msgs of (boundary, body) \<Rightarrow>
              finish headers (boundary, Some body))
         else if mt e = mtMsgpack then
           (case asFormat x e Msgpack msgs of (boundary, body) \<Rightarrow>
              finish headers (boundary, Some body))
         else if mt e = mtOctetStream then
           (case asOctetStream x e msgs of
              Inl err \<Rightarrow> Some (Inl err)
            | Inr (h, boundary, body) \<Rightarrow> finish h (boundary, Some body))
         else if mt e = mtMsgpackL then finish headers (asMsgpackL x e msgs)
         else if mt e = mtJSONL then finish headers (asJSONL x e msgs)
         else finish headers ([], None)))"

section \<open>Decoding (decode.go, header.go)\<close>

definition readString :: "hdr \<Rightarrow> Header \<Rightarrow> string \<Rightarrow> string" where
  "readString key headers target =
     (if hdr_Get key headers \<noteq> [] then hdr_Get key headers else target)"

definition trimmedItems :: "ext \<Rightarrow> string \<Rightarrow> string list" where
  "trimmedItems x p = filter (\<lambda>item. item \<noteq> []) (map (TrimSpace x) (strings_Split p CHR '',''))"

definition readStrings :: "ext \<Rightarrow> hdr \<Rightarrow> Header \<Rightarrow> string list \<Rightarrow> string list" where
  "readStrings x key headers target =
     (if length (hdr_Values key headers) > 0
      then concat (map (trimmedItems x) (hdr_Values key headers))
      else target)"

definition readInt :: "hdr \<Rightarrow> Header \<Rightarrow> int option \<Rightarrow> int option" where
  "readInt key headers target =
     (if hdr_Get key headers \<noteq> []
      then (case ParseInt (hdr_Get key headers) of
              Some v \<Rightarrow> Some v
            | None \<Rightarrow> target)
      else target)"

fun hashmapEntries :: "ext \<Rightarrow> string list \<Rightarrow> (string \<times> string) list \<Rightarrow> (string \<times> string) list" where
  "hashmapEntries x [] rv = rv"
| "hashmapEntries x (m # ms) rv =
     hashmapEntries x ms
       (case strings_SplitN2 m CHR '':'' of
          [k, v] \<Rightarrow> AList.update (TrimSpace x k) (TrimSpace x v) rv
        | _ \<Rightarrow> rv)"

definition readHashmap ::
  "ext \<Rightarrow> hdr \<Rightarrow> Header \<Rightarrow> (string \<times> string) list \<Rightarrow> (string \<times> string) list" where
  "readHashmap x key headers target =
     (if length (hdr_Values key headers) > 0
      then hashmapEntries x (hdr_Values key headers) []
      else target)"

definition readHeaders :: "hdr \<Rightarrow> Header \<Rightarrow> string list \<Rightarrow> string list" where
  "readHeaders key headers target =
     (if length (hdr_Values key headers) > 0
      then filter (\<lambda>item. item \<noteq> []) (hdr_Values key headers)
      else target)"

text \<open>A header map without the keys of one table, for statements about absent headers.\<close>

definition dropKeys :: "hdr \<Rightarrow> Header \<Rightarrow> Header" where
  "dropKeys key headers = (\<lambda>k. if k \<in> set key then [] else headers k)"

definition headerFields :: "ext \<Rightarrow> Header \<Rightarrow> message" where
  "headerFields x headers =
     \<lparr> Type = (if hdr_Get messageTypeHeader headers \<noteq> []
               then StringToMessageType x (hdr_Get messageTypeHeader headers) else 0),
       Source = readString sourceHeader headers [],
       Destination = readString destinationHeader headers [],
       TransactionUUID = readString transactionUuidHeader headers [],
       Accept = readString acceptHeader headers [],
       Status = readInt statusHeader headers None,
       RequestDeliveryResponse = readInt rdrHeader headers None,
       Headers = readHeaders headersHeader headers [],
       Metadata = readHashmap x metadataHeader headers [],
       Path = readString pathHeader headers [],
       Payload = [],
       ServiceName = readString serviceNameHeader headers [],
       URL = readString urlHeader headers [],
       PartnerIDs = readStrings x partnerIdHeader headers [],
       SessionID = readString sessionIdHeader headers [] \<rparr>"

definition fromHeaders :: "ext \<Rightarrow> Header \<Rightarrow> reader \<Rightarrow> processor list \<Rightarrow> error + message" where
  "fromHeaders x headers body validators =
     (case body of
        Inl err \<Rightarrow> Inl (FailedToReadBody err)
      | Inr payload \<Rightarrow>
          (let msg = (headerFields x headers)\<lparr>Payload := payload\<rparr> in
           case Validate x validators msg of
             Some err \<Rightarrow> Inl err
           | None \<Rightarrow> Inr msg))"

text \<open>
  \<^verbatim>\<open>handleEncoding\<close>: the gzip and zlib readers read their stream header when they
  are created and fail there; the flate reader fails only when it is read.
\<close>

definition handleEncoding :: "ext \<Rightarrow> Header \<Rightarrow> reader \<Rightarrow> error + reader" where
  "handleEncoding x h body =
     (let et = Header_Get h ''Content-Encoding'' in
      if et = ''gzip'' then
        (case body of Inl err \<Rightarrow> Inl err
         | Inr b \<Rightarrow> (case NewGzipReader x b of Inl err \<Rightarrow> Inl err | Inr d \<Rightarrow> Inr (Inr d)))
      else if et = ''deflate'' then
        Inr (case body of Inl err \<Rightarrow> Inl err | Inr b \<Rightarrow> NewFlateReader x b)
      else if et = ''zlib'' then
        (case body of Inl err \<Rightarrow> Inl err
         | Inr b \<Rightarrow> (case NewZlibReader x b of Inl err \<Rightarrow> Inl err | Inr d \<Rightarrow> Inr (Inr d)))
      else if et = ''identity'' \<or> et = [] then Inr body
      else Inl (UnsupportedContentEncoding et))"

definition fromFormat :: "ext \<Rightarrow> Format \<Rightarrow> reader \<Rightarrow> processor list \<Rightarrow> error + message list" where
  "fromFormat x f body validators =
     (case body of
        Inl err \<Rightarrow> Inl err
      | Inr b \<Rightarrow> (case Decode x f validators b of Inl err \<Rightarrow> Inl err | Inr msg \<Rightarrow> Inr [msg]))"

definition fromOctetStream ::
  "ext \<Rightarrow> Header \<Rightarrow> reader \<Rightarrow> processor list \<Rightarrow> error + message list" where
  "fromOctetStream x h body validators =
     (case fromHeaders x h body validators of Inl err \<Rightarrow> Inl err | Inr msg \<Rightarrow> Inr [msg])"

text \<open>The scanner loop of \<^verbatim>\<open>fromJSONL\<close>: every token is decoded, the first failure returns.\<close>

fun decodeLines :: "ext \<Rightarrow> processor list \<Rightarrow> bytes list \<Rightarrow> error + message list" where
  "decodeLines x validators [] = Inr []"
| "decodeLines x validators (line # ls) =
     (case Decode x JSON validators line of
        Inl err \<Rightarrow> Inl err
      | Inr msg \<Rightarrow>
          (case decodeLines x validators ls of Inl err \<Rightarrow> Inl err | Inr msgs \<Rightarrow> Inr (msg # msgs)))"

definition fromJSONL :: "ext \<Rightarrow> reader \<Rightarrow> processor list \<Rightarrow> error + message list" where
  "fromJSONL x body validators =
     (case body of
        Inl err \<Rightarrow> Inl err
      | Inr b \<Rightarrow>
          (case ScanLines x b of (ls, serr) \<Rightarrow>
             (case decodeLines x validators ls of
                Inl err \<Rightarrow> Inl err
              | Inr msgs \<Rightarrow> (case serr of Some err \<Rightarrow> Inl err | None \<Rightarrow> Inr msgs))))"

text \<open>The counted loop of \<^verbatim>\<open>fromMsgpackL\<close> over the rest of the input.\<close>

fun readItems :: "ext \<Rightarrow> processor list \<Rightarrow> nat \<Rightarrow> bytes \<Rightarrow> error + message list" where
  "readItems x validators 0 b = Inr []"
| "readItems x validators (Suc n) b =
     (case ReadBytes x b of
        Inl err \<Rightarrow> Inl err
      | Inr (item, rest) \<Rightarrow>
          (case Decode x Msgpack validators item of
             Inl err \<Rightarrow> Inl err
           | Inr msg \<Rightarrow>
               (case readItems x validators n rest of
                  Inl err \<Rightarrow> Inl err
                | Inr msgs \<Rightarrow> Inr (msg # msgs))))"

definition fromMsgpackL :: "ext \<Rightarrow> reader \<Rightarrow> processor list \<Rightarrow> error + message list" where
  "fromMsgpackL x body validators =
     (case body of
        Inl err \<Rightarrow> Inl err
      | Inr b \<Rightarrow>
          (case ReadArrayHeader x b of
             Inl err \<Rightarrow> Inl err
           | Inr (cnt, rest) \<Rightarrow> readItems x validators cnt rest))"

definition fromPart :: "ext \<Rightarrow> Header \<Rightarrow> reader \<Rightarrow> processor list \<Rightarrow> error + message list" where
  "fromPart x h body0 validators =
     (case handleEncoding x h body0 of
        Inl err \<Rightarrow> Inl err
      | Inr body \<Rightarrow>
          (case ParseMediaType x (Header_Get h ''Content-Type'') of
             Inl err \<Rightarrow> Inl (InvalidContentType err)
           | Inr (ct0, ps) \<Rightarrow>
               (let ct = strings_TrimPrefix ct0 ''multipart/'' in
                if ct = mtJSON then fromFormat x JSON body validators
                else if ct = mtMsgpack then fromFormat x Msgpack body validators
                else if ct = mtOctetStream then fromOctetStream x h body validators
                else if ct = mtJSONL then fromJSONL x body validators
                else if ct = mtMsgpackL then fromMsgpackL x body validators
                else Inl (UnsupportedMediaType ct))))"

text \<open>
  The \<^verbatim>\<open>for { part, err := mr.NextPart() ... }\<close> loop: \<open>parts\<close> are the parts the
  multipart reader yields before it reports \<open>final\<close> (\<open>None\<close> is \<^verbatim>\<open>io.EOF\<close>).
\<close>

fun decodeParts ::
  "ext \<Rightarrow> processor list \<Rightarrow> (Header \<times> bytes) list \<Rightarrow> error option \<Rightarrow> message list
     \<Rightarrow> error + message list" where
  "decodeParts x validators [] final rv =
     (case final of None \<Rightarrow> Inr rv | Some err \<Rightarrow> Inl err)"
| "decodeParts x validators (part # parts) final rv =
     (case fromPart x (fst part) (Inr (snd part)) validators of
        Inl err \<Rightarrow> Inl err
      | Inr msgs \<Rightarrow> decodeParts x validators parts final (rv @ msgs))"

definition readMultipart ::
  "ext \<Rightarrow> processor list \<Rightarrow> string \<Rightarrow> reader \<Rightarrow> error + message list" where
  "readMultipart x validators boundary body =
     (case body of
        Inl err \<Rightarrow> Inl err
      | Inr b \<Rightarrow>
          (case MultipartRead x boundary b of (parts, final) \<Rightarrow>
             decodeParts x validators parts final []))"

definition DecodeFromParts ::
  "ext \<Rightarrow> Header \<Rightarrow> reader \<Rightarrow> processor list \<Rightarrow> error + message list" where
  "DecodeFromParts x headers body validators =
     (case ParseMediaType x (Header_Get headers ''Content-Type'') of
        Inl err \<Rightarrow> Inl (InvalidContentType err)
      | Inr (mediaType, params) \<Rightarrow>
          if \<not> strings_HasPrefix mediaType ''multipart/''
          then fromPart x headers body validators
          else
            (let boundary = param params ''boundary'' in
             if boundary = [] then Inl (MissingBoundary (Header_Get headers ''Content-Type''))
             else if mediaType \<noteq> ''multipart/mixed'' then Inl (UnsupportedMediaType mediaType)
             else readMultipart x validators boundary body))"

text \<open>
  An \<^verbatim>\<open>*http.Request\<close> / \<^verbatim>\<open>*http.Response\<close> is its header and body, or nil.
  \<^verbatim>\<open>Request.MultipartReader\<close> of net/http accepts multipart/form-data and
  multipart/mixed, and requires the boundary parameter to be present.
\<close>

type_synonym http_message = "(Header \<times> reader) option"

definition MultipartReader :: "ext \<Rightarrow> Header \<Rightarrow> error + string" where
  "MultipartReader x h =
     (if Header_Get h ''Content-Type'' = [] then Inl ErrNotMultipart
      else
        (case ParseMediaType x (Header_Get h ''Content-Type'') of
           Inl err \<Rightarrow> Inl ErrNotMultipart
         | Inr (d, params) \<Rightarrow>
             if \<not> (d = ''multipart/form-data'' \<or> d = ''multipart/mixed'') then Inl ErrNotMultipart
             else (case map_of params ''boundary'' of
                     None \<Rightarrow> Inl ErrMissingBoundary
                   | Some boundary \<Rightarrow> Inr boundary)))"

definition DecodeRequest :: "ext \<Rightarrow> http_message \<Rightarrow> processor list \<Rightarrow> error + message list" where
  "DecodeRequest x req validators =
     (case req of
        None \<Rightarrow> Inl RequestIsNil
      | Some (header, body) \<Rightarrow>
          (case ParseMediaType x (Header_Get header ''Content-Type'') of
             Inl err \<Rightarrow> Inl err
           | Inr (ct, params) \<Rightarrow>
               if \<not> strings_HasPrefix ct ''multipart/''
               then fromPart x header body validators
               else
                 (case MultipartReader x header of
                    Inl err \<Rightarrow> Inl err
                  | Inr boundary \<Rightarrow> readMultipart x validators boundary body)))"

definition DecodeResponse :: "ext \<Rightarrow> http_message \<Rightarrow> processor list \<Rightarrow> error + message list" where
  "DecodeResponse x resp validators =
     (case resp of
        None \<Rightarrow> Inl ResponseIsNil
      | Some (header, body) \<Rightarrow> DecodeFromParts x header body validators)"

section \<open>The media type registry and content negotiation (mediatype.go, negotiate.go)\<close>

text \<open>
  The registry revision of mediatype.go names its nine canonical strings
  \<^verbatim>\<open>MEDIA_TYPE_*\<close>; its \<^verbatim>\<open>mt*\<close> constants are the same strings typed as
  \<^verbatim>\<open>mediaType\<close>, and are written with the \<^verbatim>\<open>MEDIA_TYPE_*\<close> names here.
\<close>

definition MEDIA_TYPE_JSON :: string where "MEDIA_TYPE_JSON = ''application/json''"
definition MEDIA_TYPE_MSGPACK :: string where "MEDIA_TYPE_MSGPACK = ''application/msgpack''"
definition MEDIA_TYPE_OCTET_STREAM :: string where
  "MEDIA_TYPE_OCTET_STREAM = ''application/octet-stream''"
definition MEDIA_TYPE_JSONL :: string where "MEDIA_TYPE_JSONL = ''application/jsonl''"
definition MEDIA_TYPE_MSGPACKL :: string where "MEDIA_TYPE_MSGPACKL = ''application/msgpackl''"
definition MEDIA_TYPE_OCTET_STREAM_X_XMIDT_STYLE :: string where
  "MEDIA_TYPE_OCTET_STREAM_X_XMIDT_STYLE = ''application/octet-stream; style=x-xmidt''"
definition MEDIA_TYPE_OCTET_STREAM_X_MIDT_STYLE :: string where
  "MEDIA_TYPE_OCTET_STREAM_X_MIDT_STYLE = ''application/octet-stream; style=x-midt''"
definition MEDIA_TYPE_OCTET_STREAM_XMIDT_STYLE :: string where
  "MEDIA_TYPE_OCTET_STREAM_XMIDT_STYLE = ''application/octet-stream; style=xmidt''"
definition MEDIA_TYPE_OCTET_STREAM_WEBPA_STYLE :: string where
  "MEDIA_TYPE_OCTET_STREAM_WEBPA_STYLE = ''application/octet-stream; style=x-webpa''"

definition mtUnknown :: mediaType where "mtUnknown = []"

definition mtFromString :: "(string \<times> mediaType) list" where
  "mtFromString =
     [(MEDIA_TYPE_JSON, MEDIA_TYPE_JSON),
      (MEDIA_TYPE_MSGPACK, MEDIA_TYPE_MSGPACK),
      (MEDIA_TYPE_OCTET_STREAM, MEDIA_TYPE_OCTET_STREAM),
      (MEDIA_TYPE_JSONL, MEDIA_TYPE_JSONL),
      (MEDIA_TYPE_MSGPACKL, MEDIA_TYPE_MSGPACKL),
      (MEDIA_TYPE_OCTET_STREAM_X_XMIDT_STYLE, MEDIA_TYPE_OCTET_STREAM_X_XMIDT_STYLE),
      (MEDIA_TYPE_OCTET_STREAM_X_MIDT_STYLE, MEDIA_TYPE_OCTET_STREAM_X_MIDT_STYLE),
      (MEDIA_TYPE_OCTET_STREAM_XMIDT_STYLE, MEDIA_TYPE_OCTET_STREAM_XMIDT_STYLE),
      (MEDIA_TYPE_OCTET_STREAM_WEBPA_STYLE, MEDIA_TYPE_OCTET_STREAM_WEBPA_STYLE)]"

text \<open>
  \<^verbatim>\<open>AllMediaTypes\<close> collects the keys of the map and sorts them with
  \<^verbatim>\<open>sort.Strings\<close> (bytewise lexicographic order), which makes the result independent
  of the order the map was ranged over.
\<close>

definition AllMediaTypes :: "string list" where
  "AllMediaTypes = sort (map fst mtFromString)"

definition toMediaType :: "string \<Rightarrow> string \<Rightarrow> error + mediaType" where
  "toMediaType name sty =
     (case map_of mtFromString name of
        None \<Rightarrow> Inl (UnsupportedMediaType name)
      | Some got \<Rightarrow>
          if got \<noteq> MEDIA_TYPE_OCTET_STREAM then Inr got
          else if sty = [] then Inr MEDIA_TYPE_OCTET_STREAM
          else if sty = styleXXmidt then Inr MEDIA_TYPE_OCTET_STREAM_X_XMIDT_STYLE
          else if sty = styleXMidt then Inr MEDIA_TYPE_OCTET_STREAM_X_MIDT_STYLE
          else if sty = styleXmidt then Inr MEDIA_TYPE_OCTET_STREAM_XMIDT_STYLE
          else if sty = styleXWebpa then Inr MEDIA_TYPE_OCTET_STREAM_WEBPA_STYLE
          else Inl (UnsupportedOctetStreamStyle sty))"

text \<open>The first result of a Go call whose error is discarded: \<^verbatim>\<open>mt, _ := ...\<close>.\<close>

definition mediaTypeOf :: "error + mediaType \<Rightarrow> mediaType" where
  "mediaTypeOf r = (case r of Inl err \<Rightarrow> mtUnknown | Inr got \<Rightarrow> got)"

definition toMediaTypeFromMime :: "ext \<Rightarrow> string \<Rightarrow> error + mediaType" where
  "toMediaTypeFromMime x s =
     (case ParseMediaType x (TrimSpace x s) of
        Inl err \<Rightarrow> Inl err
      | Inr (name, params) \<Rightarrow> toMediaType name (param params ''style''))"

definition examineContentType :: "ext \<Rightarrow> Header \<Rightarrow> error + mediaType" where
  "examineContentType x r =
     (case toMediaTypeFromMime x (Header_Get r ''Content-Type'') of
        Inl err \<Rightarrow> Inl err
      | Inr got \<Rightarrow>
          if got \<noteq> MEDIA_TYPE_OCTET_STREAM then Inr got
          else
            (let style0 = WhichStyle x destinationHeader r;
                 style1 = (if style0 = []
                           then (let s = WhichStyle x messageTypeHeader r in
                                 if s = styleXXmidt then styleXWebpa else s)
                           else style0)
             in toMediaType got style1))"

definition acceptEntry :: "string \<Rightarrow> (string \<times> string) list \<Rightarrow> ext \<Rightarrow> acceptType" where
  "acceptEntry mediaType params x =
     (case map_of params ''q'' of
        None \<Rightarrow> \<lparr> Value = mediaType, Params = params, Q = 1 \<rparr>
      | Some qstr \<Rightarrow>
          (case ParseFloat x qstr of
             None \<Rightarrow> \<lparr> Value = mediaType, Params = params, Q = 1 \<rparr>
           | Some qf \<Rightarrow> \<lparr> Value = mediaType, Params = AList.delete ''q'' params, Q = qf \<rparr>))"

fun parseAccepted :: "ext \<Rightarrow> string list \<Rightarrow> error + acceptType list" where
  "parseAccepted x [] = Inr []"
| "parseAccepted x (part # parts) =
     (case ParseMediaType x (TrimSpace x part) of
        Inl err \<Rightarrow> Inl err
      | Inr (mediaType, params) \<Rightarrow>
          (case parseAccepted x parts of
             Inl err \<Rightarrow> Inl err
           | Inr accepted \<Rightarrow> Inr (acceptEntry mediaType params x # accepted)))"

text \<open>
  The \<^verbatim>\<open>less\<close> function handed to \<^verbatim>\<open>sort.SliceStable\<close>:
  \<^verbatim>\<open>clientAccepted[i].Q > clientAccepted[j].Q\<close>.
\<close>

definition byDescendingQ :: "acceptType \<Rightarrow> acceptType \<Rightarrow> bool" where
  "byDescendingQ a b = float64_gt (Q a) (Q b)"

fun scanAccepted :: "ext \<Rightarrow> acceptType list \<Rightarrow> bool \<Rightarrow> error + mediaType" where
  "scanAccepted x [] hasWildcardAll =
     (if hasWildcardAll then Inr MEDIA_TYPE_MSGPACKL else Inl NoAcceptableContentType)"
| "scanAccepted x (ct # cts) hasWildcardAll =
     (if Value ct = ''*/*'' \<or> Value ct = ''application/*'' then scanAccepted x cts True
      else
        (let sty = ToLower x (param (Params ct) ''style'');
             got = mediaTypeOf (toMediaType (Value ct) sty)
         in if got \<noteq> mtUnknown then Inr got else scanAccepted x cts hasWildcardAll))"

definition examineRequest :: "ext \<Rightarrow> Header \<Rightarrow> error + mediaType" where
  "examineRequest x r =
     (let header = Header_Get r ''Accept'' in
      if header = [] then examineContentType x r
      else
        (case parseAccepted x (strings_Split header CHR '','') of
           Inl err \<Rightarrow> Inl err
         | Inr clientAccepted \<Rightarrow> scanAccepted x (SliceStable x byDescendingQ clientAccepted) False))"



section \<open>What a round trip needs from the messages and the libraries\<close>









section \<open>A concrete instance of the library interface\<close>

text \<open>
  Small executable stand-ins for the library functions, used to run the definitions
  above on concrete inputs. They agree with the libraries on the inputs used below:
  ASCII-only trimming and lower-casing, a media-type parser for the plain
  \<^verbatim>\<open>type/subtype; key=value\<close> form, the wrp-go message-type names, a validator that
  rejects an invalid message type, a codec for three fixed messages, tagged
  compression, and length- or separator-framed containers.
\<close>

definition asciiSpace :: "char \<Rightarrow> bool" where
  "asciiSpace c = ((of_char c :: nat) = 32 \<or> (9 \<le> (of_char c :: nat) \<and> (of_char c :: nat) \<le> 13))"

definition sample_TrimSpace :: "string \<Rightarrow> string" where
  "sample_TrimSpace s = rev (dropWhile asciiSpace (rev (dropWhile asciiSpace s)))"

definition sample_ToLower :: "string \<Rightarrow> string" where
  "sample_ToLower s =
     map (\<lambda>c. if 65 \<le> (of_char c :: nat) \<and> (of_char c :: nat) \<le> 90
              then char_of ((of_char c :: nat) + 32) else c) s"

definition sample_param :: "string \<Rightarrow> string \<times> string" where
  "sample_param p =
     (case strings_SplitN2 p CHR ''='' of
        [k, v] \<Rightarrow> (sample_ToLower (sample_TrimSpace k), sample_TrimSpace v)
      | _ \<Rightarrow> (sample_ToLower (sample_TrimSpace p), []))"

definition sample_ParseMediaType :: "string \<Rightarrow> error + string \<times> (string \<times> string) list" where
  "sample_ParseMediaType s =
     (case strings_Split s CHR '';'' of
        [] \<Rightarrow> Inl (LibraryError ''mime: no media type'')
      | t # ps \<Rightarrow>
          if sample_TrimSpace t = [] then Inl (LibraryError ''mime: no media type'')
          else if hd (sample_TrimSpace t) = CHR ''/'' then Inl (LibraryError ''mime: no media type'')
          else Inr (sample_ToLower (sample_TrimSpace t), map sample_param ps))"

definition sample_ParseFloat :: "string \<Rightarrow> float64 option" where
  "sample_ParseFloat s =
     map_of [(''1'', Finite 1), (''1.0'', Finite 1), (''0.9'', Finite (9 / 10)),
             (''0.8'', Finite (4 / 5)), (''0.5'', Finite (1 / 2)), (''0.2'', Finite (1 / 5)),
             (''0'', Finite 0), (''NaN'', NaN)] s"

text \<open>
  The insertion sort that \<^verbatim>\<open>sort.SliceStable\<close> runs on a slice of at most 20
  elements: each element moves left while \<^verbatim>\<open>less\<close> holds between it and its left
  neighbour. The sorted prefix is kept reversed.
\<close>

fun sample_insert :: "('a \<Rightarrow> 'a \<Rightarrow> bool) \<Rightarrow> 'a \<Rightarrow> 'a list \<Rightarrow> 'a list" where
  "sample_insert lt y [] = [y]"
| "sample_insert lt y (z # rs) =
     (if lt y z then z # sample_insert lt y rs else y # z # rs)"

definition sample_SliceStable :: "('a \<Rightarrow> 'a \<Rightarrow> bool) \<Rightarrow> 'a list \<Rightarrow> 'a list" where
  "sample_SliceStable lt xs = rev (foldl (\<lambda>rs y. sample_insert lt y rs) [] xs)"

text \<open>The first table entry with a value present names the style.\<close>

definition sample_WhichStyle :: "hdr \<Rightarrow> Header \<Rightarrow> string" where
  "sample_WhichStyle h headers =
     (case filter (\<lambda>p. Header_Get headers (fst p) \<noteq> [])
             (zip h [styleXXmidt, styleXMidt, styleXmidt, styleXWebpa]) of
        [] \<Rightarrow> []
      | p # ps \<Rightarrow> snd p)"

definition messageTypeNames :: "(int \<times> string) list" where
  "messageTypeNames =
     [(2, ''Auth''), (3, ''SimpleRequestResponse''), (4, ''SimpleEvent''), (5, ''Create''),
      (6, ''Retrieve''), (7, ''Update''), (8, ''Delete''), (9, ''ServiceRegistration''),
      (10, ''ServiceAlive''), (11, ''Unknown'')]"

definition sample_FriendlyName :: "int \<Rightarrow> string" where
  "sample_FriendlyName t = (case map_of messageTypeNames t of None \<Rightarrow> ''Invalid'' | Some n \<Rightarrow> n)"

definition sample_StringToMessageType :: "string \<Rightarrow> int" where
  "sample_StringToMessageType s =
     (case map_of (map (\<lambda>p. (snd p, fst p)) messageTypeNames) s of None \<Rightarrow> 12 | Some t \<Rightarrow> t)"

definition sample_Validate :: "processor list \<Rightarrow> message \<Rightarrow> error option" where
  "sample_Validate validators msg =
     (if Type msg < 2 \<or> 11 < Type msg then Some (LibraryError ''invalid message type'') else None)"

definition sampleMessage1 :: message where
  "sampleMessage1 = \<lparr> Type = 3, Source = ''source1'', Destination = ''destination1'',
     TransactionUUID = ''uuid1'', Accept = [], Status = Some 200,
     RequestDeliveryResponse = None, Headers = [''header1'', ''header2''],
     Metadata = [(''key1'', ''value1''), (''key2'', ''value2'')], Path = [],
     Payload = ''payload1'', ServiceName = [], URL = [],
     PartnerIDs = [''partner1'', ''partner2''], SessionID = [] \<rparr>"

definition sampleMessage2 :: message where
  "sampleMessage2 = \<lparr> Type = 3, Source = ''source2'', Destination = ''destination2'',
     TransactionUUID = ''uuid2'', Accept = [], Status = None,
     RequestDeliveryResponse = None, Headers = [], Metadata = [], Path = [],
     Payload = ''payload2'', ServiceName = [], URL = [], PartnerIDs = [], SessionID = [] \<rparr>"

definition sampleMessage3 :: message where
  "sampleMessage3 = \<lparr> Type = 4, Source = ''source3'', Destination = ''destination3'',
     TransactionUUID = ''uuid3'', Accept = [], Status = None,
     RequestDeliveryResponse = None, Headers = [], Metadata = [], Path = [],
     Payload = ''payload3'', ServiceName = [], URL = [], PartnerIDs = [], SessionID = [] \<rparr>"


text \<open>A message without a message type, as in the tests that expect validation to fail.\<close>

definition invalidMessage :: message where
  "invalidMessage = zeroMessage\<lparr>Source := ''source'', Destination := ''destination''\<rparr>"

definition sample_Encode :: "Format \<Rightarrow> processor list \<Rightarrow> message \<Rightarrow> error + bytes" where
  "sample_Encode f validators msg =
     (case sample_Validate validators msg of
        Some err \<Rightarrow> Inl err
      | None \<Rightarrow>
          if msg = sampleMessage1 then Inr (if f = JSON then [CHR ''1'', CHR 0x0A] else ''1'')
          else if msg = sampleMessage2 then Inr (if f = JSON then [CHR ''2'', CHR 0x0A] else ''2'')
          else if msg = sampleMessage3 then Inr (if f = JSON then [CHR ''3'', CHR 0x0A] else ''3'')
          else Inl (LibraryError ''codec: message outside the table''))"

definition sample_Decode :: "Format \<Rightarrow> processor list \<Rightarrow> bytes \<Rightarrow> error + message" where
  "sample_Decode f validators b =
     (let t = (if f = JSON \<and> b \<noteq> [] \<and> last b = CHR 0x0A then butlast b else b) in
      if t = ''1'' then Inr sampleMessage1
      else if t = ''2'' then Inr sampleMessage2
      else if t = ''3'' then Inr sampleMessage3
      else Inl (LibraryError ''codec: malformed input''))"

definition sample_Writer :: "string \<Rightarrow> int \<Rightarrow> error + (bytes \<Rightarrow> bytes)" where
  "sample_Writer tag level =
     (if - 2 \<le> level \<and> level \<le> 9 then Inr (\<lambda>b. tag @ b)
      else Inl (LibraryError ''invalid compression level''))"

definition sample_Reader :: "string \<Rightarrow> bytes \<Rightarrow> error + bytes" where
  "sample_Reader tag b =
     (if take (length tag) b = tag then Inr (drop (length tag) b)
      else Inl (LibraryError ''invalid header''))"

definition sample_partHeader :: "string \<Rightarrow> string \<Rightarrow> Header" where
  "sample_partHeader ct ce =
     (let h0 = (if ct = [] then emptyHeader else Header_Set emptyHeader ''Content-Type'' ct) in
      if ce = [] then h0 else Header_Set h0 ''Content-Encoding'' ce)"

definition sample_MultipartWrite :: "string \<Rightarrow> (Header \<times> bytes) list \<Rightarrow> bytes" where
  "sample_MultipartWrite boundary parts =
     boundary @
     concat (map (\<lambda>p. [CHR 0x01] @ Header_Get (fst p) ''Content-Type'' @ [CHR 0x00]
                        @ Header_Get (fst p) ''Content-Encoding'' @ [CHR 0x00] @ snd p) parts)"

fun sample_parts :: "string list \<Rightarrow> (Header \<times> bytes) list \<times> error option" where
  "sample_parts [] = ([], None)"
| "sample_parts (s # ss) =
     (case strings_Split s CHR 0x00 of
        [ct, ce, body] \<Rightarrow>
          (case sample_parts ss of (ps, final) \<Rightarrow> ((sample_partHeader ct ce, body) # ps, final))
      | _ \<Rightarrow> ([], Some (LibraryError ''multipart: malformed part'')))"

definition sample_MultipartRead :: "string \<Rightarrow> bytes \<Rightarrow> (Header \<times> bytes) list \<times> error option" where
  "sample_MultipartRead boundary b =
     (case strings_Split b CHR 0x01 of
        [] \<Rightarrow> ([], Some (LibraryError ''multipart: boundary not found''))
      | pre # rest \<Rightarrow>
          if pre = boundary then sample_parts rest
          else ([], Some (LibraryError ''multipart: boundary not found'')))"

definition sample_ReadArrayHeader :: "bytes \<Rightarrow> error + nat \<times> bytes" where
  "sample_ReadArrayHeader b =
     (case b of [] \<Rightarrow> Inl (LibraryError ''msgp: unexpected EOF'') | c # rest \<Rightarrow> Inr (of_char c, rest))"

definition sample_ReadBytes :: "bytes \<Rightarrow> error + bytes \<times> bytes" where
  "sample_ReadBytes b =
     (case b of
        [] \<Rightarrow> Inl (LibraryError ''msgp: unexpected EOF'')
      | c # rest \<Rightarrow>
          if (of_char c :: nat) \<le> length rest
          then Inr (take (of_char c) rest, drop (of_char c) rest)
          else Inl (LibraryError ''msgp: unexpected EOF''))"

definition sample_ScanLines :: "bytes \<Rightarrow> bytes list \<times> error option" where
  "sample_ScanLines b =
     (let toks = strings_Split b CHR 0x0A in
      (if last toks = [] then butlast toks else toks, None))"

text \<open>Encoders as \<^verbatim>\<open>NewEncoder\<close> builds them, for the examples.\<close>

definition sampleJSONLEncoder :: Encoder where
  "sampleJSONLEncoder = \<lparr> mt = mtJSONL, compressor = GzipWriterLevel (- 1), encoding = ''gzip'',
     validator = [], style = [], maxItems = 2 \<rparr>"

definition sampleOctetEncoder :: Encoder where
  "sampleOctetEncoder = \<lparr> mt = mtOctetStream, compressor = NopWriteCloser,
     encoding = ''identity'', validator = [], style = ''X-Midt'', maxItems = 1000 \<rparr>"

definition sample_ext :: ext where
  "sample_ext =
     \<lparr> ParseMediaType = sample_ParseMediaType,
       ParseFloat = sample_ParseFloat,
       TrimSpace = sample_TrimSpace,
       ToLower = sample_ToLower,
       WhichStyle = sample_WhichStyle,
       FriendlyName = sample_FriendlyName,
       StringToMessageType = sample_StringToMessageType,
       Validate = sample_Validate,
       Encode = sample_Encode,
       Decode = sample_Decode,
       NewGzipWriter = sample_Writer ''GZ'',
       NewFlateWriter = sample_Writer ''FL'',
       NewZlibWriter = sample_Writer ''ZL'',
       NewGzipReader = sample_Reader ''GZ'',
       NewFlateReader = sample_Reader ''FL'',
       NewZlibReader = sample_Reader ''ZL'',
       Boundary = ''BOUNDARY'',
       MultipartWrite = sample_MultipartWrite,
       MultipartRead = sample_MultipartRead,
       WriteArrayHeader = (\<lambda>n. [char_of n]),
       WriteBytes = (\<lambda>b. char_of (length b) # b),
       ReadArrayHeader = sample_ReadArrayHeader,
       ReadBytes = sample_ReadBytes,
       ScanLines = sample_ScanLines,
       SliceStable = sample_SliceStable \<rparr>"

section \<open>Empty input, the registry and the builder\<close>

text \<open>
  Claim C6. Encoding an empty message list fails: \<^verbatim>\<open>ToParts\<close> returns the error
  "no messages provided" and neither headers nor body. Decoding a nil request with
  \<^verbatim>\<open>DecodeRequest\<close> and a nil response with \<^verbatim>\<open>DecodeResponse\<close> returns an
  error, whatever the configuration, the library and the validators are.
\<close>

theorem empty_input_rejected:
  "ToParts x e [] = Some (Inl NoMessagesProvided)
   \<and> DecodeRequest x None validators = Inl RequestIsNil
   \<and> DecodeResponse x None validators = Inl ResponseIsNil"
  by (simp add: ToParts_def DecodeRequest_def DecodeResponse_def)

theorem empty_input_rejected_witness:
  "ToParts sample_ext zeroEncoder [] = Some (Inl NoMessagesProvided)
   \<and> DecodeRequest sample_ext None [] = Inl RequestIsNil
   \<and> DecodeResponse sample_ext None [] = Inl ResponseIsNil"
  using empty_input_rejected [of sample_ext zeroEncoder "[]"] by simp

lemmas media_type_strings =
  MEDIA_TYPE_JSON_def MEDIA_TYPE_MSGPACK_def MEDIA_TYPE_OCTET_STREAM_def MEDIA_TYPE_JSONL_def
  MEDIA_TYPE_MSGPACKL_def MEDIA_TYPE_OCTET_STREAM_X_XMIDT_STYLE_def
  MEDIA_TYPE_OCTET_STREAM_X_MIDT_STYLE_def MEDIA_TYPE_OCTET_STREAM_XMIDT_STYLE_def
  MEDIA_TYPE_OCTET_STREAM_WEBPA_STYLE_def

lemma mtFromString_keys_distinct: "distinct (map fst mtFromString)"
  by (simp add: mtFromString_def media_type_strings)

text \<open>
  Claim C9. \<^verbatim>\<open>AllMediaTypes\<close> returns exactly the nine canonical strings of the
  registry, the five base types and the four octet-stream style variants, each once;
  the statement is about the set of entries, not their order.
\<close>

theorem all_media_types:
  "set AllMediaTypes =
     {MEDIA_TYPE_JSON, MEDIA_TYPE_MSGPACK, MEDIA_TYPE_OCTET_STREAM, MEDIA_TYPE_JSONL,
      MEDIA_TYPE_MSGPACKL, MEDIA_TYPE_OCTET_STREAM_X_XMIDT_STYLE,
      MEDIA_TYPE_OCTET_STREAM_X_MIDT_STYLE, MEDIA_TYPE_OCTET_STREAM_XMIDT_STYLE,
      MEDIA_TYPE_OCTET_STREAM_WEBPA_STYLE}
   \<and> length AllMediaTypes = 9 \<and> distinct AllMediaTypes"
proof -
  have "set AllMediaTypes = set (map fst mtFromString)"
    by (simp add: AllMediaTypes_def)
  moreover have "length AllMediaTypes = length mtFromString"
    by (simp add: AllMediaTypes_def)
  moreover have "distinct AllMediaTypes"
    using mtFromString_keys_distinct by (simp add: AllMediaTypes_def)
  ultimately show ?thesis
    by (auto simp: mtFromString_def)
qed

theorem all_media_types_witness:
  "''application/octet-stream; style=x-webpa'' \<in> set AllMediaTypes \<and> length AllMediaTypes = 9"
  using all_media_types by (simp add: media_type_strings)

lemma applyOptions_append:
  "applyOptions (a @ b) e =
     (case applyOptions a e of Inl err \<Rightarrow> Inl err | Inr e' \<Rightarrow> applyOptions b e')"
proof (induction a arbitrary: e)
  case Nil
  then show ?case by simp
next
  case (Cons o1 a)
  then show ?case
    by (cases o1) (auto split: sum.splits)
qed

lemma applyOptions_defaults:
  "applyOptions defaults zeroEncoder =
     Inr \<lparr> mt = mtMsgpack, compressor = NopWriteCloser, encoding = ''identity'',
           validator = [], style = [], maxItems = 1000 \<rparr>"
  by (simp add: defaults_def zeroEncoder_def)

text \<open>
  Claim C7. \<^verbatim>\<open>NewEncoder\<close> applies the defaults first (msgpack, no compression,
  a chunk size of 0 which \<^verbatim>\<open>WithMaxItemsPerChunk\<close> turns into 1000), then the
  caller's options in the order given, each on the result of the one before, so that a
  later option overrides an earlier one; the first option that reports an error ends the
  construction with that error and no encoder.
\<close>

theorem new_encoder_applies_defaults_then_options:
  "NewEncoder [] =
     Inr \<lparr> mt = mtMsgpack, compressor = NopWriteCloser, encoding = ''identity'',
           validator = [], style = [], maxItems = 1000 \<rparr>
   \<and> NewEncoder opts =
       applyOptions opts \<lparr> mt = mtMsgpack, compressor = NopWriteCloser, encoding = ''identity'',
                           validator = [], style = [], maxItems = 1000 \<rparr>
   \<and> NewEncoder (opts @ [Some opt]) =
       (case NewEncoder opts of Inl err \<Rightarrow> Inl err | Inr enc \<Rightarrow> apply_option opt enc)
   \<and> (NewEncoder opts = Inl err \<longrightarrow> NewEncoder (opts @ rest) = Inl err)
   \<and> (NewEncoder opts = Inr enc \<and> apply_option opt enc = Inl err
        \<longrightarrow> NewEncoder (opts @ Some opt # rest) = Inl err)
   \<and> apply_option (WithMaxItemsPerChunk 0) enc = Inr (enc\<lparr>maxItems := 1000\<rparr>)"
  by (simp add: NewEncoder_def applyOptions_append applyOptions_defaults split: sum.splits)

theorem new_encoder_applies_defaults_then_options_witness:
  "NewEncoder [Some AsJSON, Some (WithMaxItemsPerChunk 5)]
     = Inr \<lparr> mt = mtJSON, compressor = NopWriteCloser, encoding = ''identity'',
             validator = [], style = [], maxItems = 5 \<rparr>
   \<and> NewEncoder ([Some AsJSON, Some (WithMaxItemsPerChunk 5)] @ [Some AsMsgpackL])
     = Inr \<lparr> mt = mtMsgpackL, compressor = NopWriteCloser, encoding = ''identity'',
             validator = [], style = [], maxItems = 5 \<rparr>
   \<and> NewEncoder ([Some AsJSON, Some (WithMaxItemsPerChunk 5)]
                  @ Some (AsOctetStream [''invalid'']) # [Some AsJSONL])
     = Inl (InvalidStyle [''invalid'', ''X-Webpa''])"
proof -
  let ?opts = "[Some AsJSON, Some (WithMaxItemsPerChunk 5)]"
  let ?enc = "\<lparr> mt = mtJSON, compressor = NopWriteCloser, encoding = ''identity'',
                 validator = [], style = [], maxItems = 5 \<rparr>"
  note th = new_encoder_applies_defaults_then_options
    [of ?opts "AsOctetStream [''invalid'']" "InvalidStyle [''invalid'', ''X-Webpa'']"
        "[Some AsJSONL]" ?enc]
  note th2 = new_encoder_applies_defaults_then_options
    [of ?opts AsMsgpackL "InvalidStyle [''invalid'', ''X-Webpa'']" "[]" ?enc]
  have a: "NewEncoder ?opts = Inr ?enc"
    using th by simp
  have b: "apply_option (AsOctetStream [''invalid'']) ?enc = Inl (InvalidStyle [''invalid'', ''X-Webpa''])"
    by (simp add: styleXXmidt_def styleXMidt_def styleXmidt_def styleXWebpa_def)
  show ?thesis
    using th th2 a b by simp
qed

subsection \<open>The chunk loop\<close>

lemma Next_done:
  "length xs \<le> cur \<Longrightarrow>
     Next \<lparr>clist = xs, perChunk = p, current = int cur\<rparr>
       = Inr (None, \<lparr>clist = xs, perChunk = p, current = int cur\<rparr>)"
  by (simp add: Next_def)

lemma Next_step:
  assumes "0 < c" and "cur < length xs"
  shows "Next \<lparr>clist = xs, perChunk = int c, current = int cur\<rparr>
       = Inr (Some (take c (drop cur xs)),
              \<lparr>clist = xs, perChunk = int c, current = int (min (cur + c) (length xs))\<rparr>)"
proof (cases "cur + c > length xs")
  case True
  then have "take c (drop cur xs) = take (length xs - cur) (drop cur xs)"
    by simp
  with True assms show ?thesis
    by (simp add: Next_def Let_def min_def nat_diff_distrib')
next
  case False
  with assms show ?thesis
    by (simp add: Next_def Let_def min_def)
qed

lemma writeParts_snoc:
  "writeParts fn (xs @ [y]) =
     (case writeParts fn xs of
        Inl err \<Rightarrow> Inl err
      | Inr ps \<Rightarrow> (case fn y of Inl err \<Rightarrow> Inl err | Inr p \<Rightarrow> Inr (ps @ [p])))"
  by (induction xs) (auto split: sum.splits)

lemma chunksOf_Nil [simp]: "chunksOf c [] = []"
  by (subst chunksOf.simps) simp

lemma chunksOf_nonempty:
  "0 < c \<Longrightarrow> xs \<noteq> [] \<Longrightarrow> chunksOf c xs = take c xs # chunksOf c (drop c xs)"
  by (subst chunksOf.simps) simp

lemma chunkLoop_chunksOf:
  assumes c: "0 < c"
  shows "cur \<le> length xs \<Longrightarrow>
     chunkLoop fn \<lparr>clist = xs, perChunk = int c, current = int cur\<rparr> acc
       = Some (case writeParts fn (chunksOf c (drop cur xs)) of
                 Inl err \<Rightarrow> Inl err
               | Inr ps \<Rightarrow> Inr (acc @ ps))"
proof (induction "length xs - cur" arbitrary: cur acc rule: less_induct)
  case less
  show ?case
  proof (cases "cur < length xs")
    case False
    with less.prems have "cur = length xs" by simp
    then show ?thesis
      by (subst chunkLoop.simps) (simp add: Next_done)
  next
    case True
    define cur' where "cur' = min (cur + c) (length xs)"
    have lt: "length xs - cur' < length xs - cur"
      using True c unfolding cur'_def min_def by (cases "cur + c \<le> length xs") simp_all
    have le: "cur' \<le> length xs" by (simp add: cur'_def)
    have dr: "drop c (drop cur xs) = drop cur' xs"
      by (simp add: cur'_def min_def add.commute)
    have ne: "drop cur xs \<noteq> []" using True by simp
    have unfold: "chunksOf c (drop cur xs) = take c (drop cur xs) # chunksOf c (drop cur' xs)"
      unfolding chunksOf_nonempty [OF c ne] dr ..
    have step: "Next \<lparr>clist = xs, perChunk = int c, current = int cur\<rparr>
       = Inr (Some (take c (drop cur xs)),
              \<lparr>clist = xs, perChunk = int c, current = int cur'\<rparr>)"
      using Next_step [OF c True] by (simp add: cur'_def)
    show ?thesis
    proof (cases "fn (take c (drop cur xs))")
      case (Inl err)
      then show ?thesis
        by (subst chunkLoop.simps) (simp add: step unfold)
    next
      case (Inr p)
      then show ?thesis
        by (subst chunkLoop.simps) (simp add: step unfold less.hyps [OF lt le] split: sum.splits)
    qed
  qed
qed

lemma concat_chunksOf: "0 < c \<Longrightarrow> concat (chunksOf c xs) = xs"
proof (induction c xs rule: chunksOf.induct)
  case (1 c xs)
  show ?case
  proof (cases "xs = []")
    case True
    then show ?thesis by simp
  next
    case False
    with 1 have "concat (chunksOf c (drop c xs)) = drop c xs" by simp
    then show ?thesis
      by (simp add: chunksOf_nonempty [OF 1(2) False])
  qed
qed

lemma ceil_div_step: "0 < (c::nat) \<Longrightarrow> c \<le> n \<Longrightarrow> (n + c - 1) div c = Suc ((n - c + c - 1) div c)"
proof -
  assume c: "0 < c" and n: "c \<le> n"
  have a: "n + c - 1 = (n - 1) + c" using c n by arith
  have b: "n - c + c - 1 = n - 1" using n by arith
  have "((n - 1) + c) div c = Suc ((n - 1) div c)" using c by simp
  then show ?thesis unfolding a b .
qed

lemma ceil_div_small: "0 < (n::nat) \<Longrightarrow> n < c \<Longrightarrow> (n + c - 1) div c = 1"
  by (rule div_nat_eqI) simp_all

lemma length_chunksOf: "0 < c \<Longrightarrow> length (chunksOf c xs) = (length xs + c - 1) div c"
proof (induction c xs rule: chunksOf.induct)
  case (1 c xs)
  show ?case
  proof (cases "xs = []")
    case True
    with 1 show ?thesis by simp
  next
    case False
    then have pos: "0 < length xs" by simp
    have ih: "length (chunksOf c (drop c xs)) = (length xs - c + c - 1) div c"
      using 1 False by simp
    have len: "length (chunksOf c xs) = Suc (length (chunksOf c (drop c xs)))"
      by (simp add: chunksOf_nonempty [OF 1(2) False])
    show ?thesis
    proof (cases "c \<le> length xs")
      case True
      show ?thesis
        unfolding len ih using ceil_div_step [OF 1(2) True] by simp
    next
      case F: False
      then have "drop c xs = []" by simp
      then have "length (chunksOf c xs) = 1" unfolding len by simp
      moreover have "(length xs + c - 1) div c = 1"
        using F pos by (intro ceil_div_small) simp_all
      ultimately show ?thesis by simp
    qed
  qed
qed

lemma nth_chunksOf:
  "0 < c \<Longrightarrow> i < length (chunksOf c xs) \<Longrightarrow> chunksOf c xs ! i = take c (drop (i * c) xs)"
proof (induction i arbitrary: xs)
  case 0
  then have ne: "xs \<noteq> []" by (cases "xs = []") simp_all
  show ?case
    by (simp add: chunksOf_nonempty [OF 0(1) ne])
next
  case (Suc i)
  from Suc.prems have ne: "xs \<noteq> []"
    by (cases "xs = []") simp_all
  note unf = chunksOf_nonempty [OF Suc.prems(1) ne]
  from Suc.prems have "i < length (chunksOf c (drop c xs))"
    unfolding unf by simp
  from Suc.IH [OF Suc.prems(1) this] show ?case
    unfolding unf by (simp add: add.commute)
qed

section \<open>Chunking of the line-delimited formats\<close>

lemmas mt_strings = mtJSON_def mtMsgpack_def mtOctetStream_def mtJSONL_def mtMsgpackL_def

lemma writeParts_Inr:
  "writeParts f xs = Inr ps \<Longrightarrow>
     length ps = length xs \<and> (\<forall>i<length xs. f (xs ! i) = Inr (ps ! i))"
proof (induction xs arbitrary: ps)
  case Nil
  then show ?case by simp
next
  case (Cons a xs)
  then obtain p ps' where p: "f a = Inr p" and ps': "writeParts f xs = Inr ps'" and eq: "ps = p # ps'"
    by (auto split: sum.splits)
  from Cons.IH [OF ps'] p eq show ?case
    by (auto simp: nth_Cons split: nat.splits)
qed

lemma div_qr: "r < (c::nat) \<Longrightarrow> (q * c + r) div c = q"
  by simp

lemma ceil_div_qr:
  assumes c: "0 < (c::nat)" and r: "r < c"
  shows "(q * c + r + c - 1) div c = (if r = 0 then q else Suc q)"
proof (cases "r = 0")
  case True
  have "q * c + r + c - 1 = q * c + (c - 1)" using True c by arith
  moreover have "c - 1 < c" using c by arith
  ultimately have "(q * c + r + c - 1) div c = q" by (simp only: div_qr)
  then show ?thesis using True by simp
next
  case False
  have "q * c + r + c - 1 = Suc q * c + (r - 1)" using False c by simp
  moreover have "r - 1 < c" using r by arith
  ultimately have "(q * c + r + c - 1) div c = Suc q" by (simp only: div_qr)
  then show ?thesis using False by simp
qed

lemma chunk_sizes:
  assumes c: "0 < c" and n: "xs \<noteq> []"
  shows "(\<forall>i < length (chunksOf c xs) - 1. length (chunksOf c xs ! i) = c)
       \<and> length (last (chunksOf c xs))
           = (if length xs mod c = 0 then c else length xs mod c)"
proof -
  define q where "q = length xs div c"
  define r where "r = length xs mod c"
  define cs where "cs = chunksOf c xs"
  have decomp: "length xs = q * c + r" by (simp add: q_def r_def)
  have r: "r < c" using c by (simp add: r_def)
  have npos: "0 < length xs" using n by simp
  have L: "length cs = (if r = 0 then q else Suc q)"
    unfolding cs_def length_chunksOf [OF c] decomp by (rule ceil_div_qr [OF c r])
  have qpos: "r = 0 \<Longrightarrow> 0 < q"
    using npos decomp by (cases q) simp_all
  have lpos: "0 < length cs"
    using L qpos by (cases "r = 0") simp_all
  have nth: "\<And>i. i < length cs \<Longrightarrow> length (cs ! i) = min c (length xs - i * c)"
    unfolding cs_def by (simp add: nth_chunksOf [OF c] min.commute)
  have a: "\<forall>i < length cs - 1. length (cs ! i) = c"
  proof (intro allI impI)
    fix i assume i: "i < length cs - 1"
    then have "Suc i \<le> q" using L by (cases "r = 0") simp_all
    then have "Suc i * c \<le> q * c" by (rule mult_le_mono1)
    then have "c \<le> length xs - i * c" unfolding decomp by simp
    moreover have "i < length cs" using i by simp
    ultimately show "length (cs ! i) = c" using nth [of i] by simp
  qed
  have "last cs = cs ! (length cs - 1)"
    using lpos by (simp add: last_conv_nth)
  then have last: "length (last cs) = min c (length xs - (length cs - 1) * c)"
    using nth [of "length cs - 1"] lpos by simp
  have "min c (length xs - (length cs - 1) * c) = (if r = 0 then c else r)"
  proof (cases "r = 0")
    case True
    then obtain q' where q': "q = Suc q'" using qpos by (cases q) simp_all
    show ?thesis using True L r unfolding decomp q' by simp
  next
    case False
    then show ?thesis using L r unfolding decomp by simp
  qed
  with last a show ?thesis unfolding cs_def r_def by simp
qed

text \<open>
  What \<^verbatim>\<open>ToParts\<close> returns for a line-delimited format, with the parts still given by
  the loop body: one stream when \<^verbatim>\<open>maxItems < 1\<close> or the list fits, and otherwise the
  closed multipart writer over one part per chunk; the producer loop ends.
\<close>

lemma line_delimited_ToParts:
  assumes fmt: "(mt e = mtJSONL \<and> fn = asJSONLArray x e)
                \<or> (mt e = mtMsgpackL \<and> fn = asMsgpackLArray x e)"
      and ne: "msgs \<noteq> []"
      and bd: "Boundary x \<noteq> []"
  shows "ToParts x e msgs =
     (if maxItems e < 1 \<or> int (length msgs) \<le> maxItems e
      then Some (Inr (getHeaders e emptyHeader, compressed x e (fn msgs)))
      else Some (Inr (Header_Set (getHeaders e emptyHeader) ''Content-Type''
                        (''multipart/mixed; boundary='' @ Boundary x),
                      closeMultipart x
                        (writeParts (chunkPart x e fn) (chunksOf (nat (maxItems e)) msgs)))))"
proof (cases "maxItems e < 1 \<or> int (length msgs) \<le> maxItems e")
  case True
  with fmt ne show ?thesis
    by (auto simp: ToParts_def asJSONL_def asMsgpackL_def asJSONLSingle_def asMsgpackLSingle_def
        finish_def setBoundary_def mt_strings)
next
  case False
  define c where "c = nat (maxItems e)"
  have c: "0 < c" and ce: "maxItems e = int c" using False by (simp_all add: c_def)
  have loop: "chunkLoop (chunkPart x e fn) \<lparr>clist = msgs, perChunk = maxItems e, current = 0\<rparr> []
      = Some (writeParts (chunkPart x e fn) (chunksOf c msgs))"
    using chunkLoop_chunksOf [OF c, of 0 msgs "chunkPart x e fn" "[]"]
    by (simp add: ce split: sum.splits)
  show ?thesis
    using fmt ne False bd loop
    by (auto simp: ToParts_def asJSONL_def asMsgpackL_def chunkedMultipart_def
        finish_def setBoundary_def mt_strings c_def)
qed

text \<open>The bytes of a chunk, of a part and of the part list, when every message encodes.\<close>

lemma asJSONLArray_encoded:
  "\<forall>m\<in>set ch. Encode x JSON (validator e) m = Inr (enc m) \<Longrightarrow>
     asJSONLArray x e ch = Inr (concat (map enc ch))"
  by (induction ch) simp_all

lemma msgpackItems_encoded:
  "\<forall>m\<in>set ch. Encode x Msgpack (validator e) m = Inr (enc m) \<Longrightarrow>
     msgpackItems x e ch = Inr (concat (map (\<lambda>m. WriteBytes x (enc m)) ch))"
  by (induction ch) simp_all

lemma asMsgpackLArray_encoded:
  "\<forall>m\<in>set ch. Encode x Msgpack (validator e) m = Inr (enc m) \<Longrightarrow>
     asMsgpackLArray x e ch
       = Inr (WriteArrayHeader x (length ch mod 2 ^ 32)
              @ concat (map (\<lambda>m. WriteBytes x (enc m)) ch))"
  using msgpackItems_encoded [of ch x e enc] by (simp add: asMsgpackLArray_def)

lemma compressed_written:
  "newCompressor x (compressor e) = Inr cw \<Longrightarrow> compressed x e (Inr b) = Inr (cw b)"
  by (simp add: compressed_def)

lemma chunkPart_written:
  "newCompressor x (compressor e) = Inr cw \<Longrightarrow> fn ch = Inr b \<Longrightarrow>
     chunkPart x e fn ch = Inr (getHeaders e emptyHeader, cw b)"
  by (simp add: chunkPart_def asPart_def compressed_def)

lemma writeParts_map:
  "\<forall>a\<in>set xs. mk a = Inr (g a) \<Longrightarrow> writeParts mk xs = Inr (map g xs)"
  by (induction xs) simp_all

lemma set_chunksOf:
  assumes "0 < c" and "ch \<in> set (chunksOf c xs)"
  shows "set ch \<subseteq> set xs"
proof -
  from assms(2) have "set ch \<subseteq> set (concat (chunksOf c xs))" by auto
  then show ?thesis by (simp add: concat_chunksOf [OF assms(1)])
qed

text \<open>
  Claim C4. With a line-delimited format (jsonl or msgpackl), \<open>n \<ge> 1\<close> messages
  that all encode, a compressor that can be created and \<open>maxItemsPerChunk = c\<close>:
  when \<open>c \<le> 0\<close> or \<open>n \<le> c\<close> the body is one stream, the compressed encoding
  of all \<open>n\<close> messages, under the format's own Content-Type with no multipart
  wrapper; when \<open>0 < c < n\<close> the body is the multipart/mixed document the multipart
  writer produces from exactly \<open>ceil(n/c)\<close> parts, where part \<open>i\<close> holds the
  compressed encoding of the messages \<open>i * c\<close> up to \<open>(i + 1) * c\<close> of the
  input and nothing else: \<open>c\<close> messages in every part but the last, which holds
  \<open>n mod c\<close> (or \<open>c\<close> when \<open>c\<close> divides \<open>n\<close>). The encoding of a jsonl chunk is
  the concatenation of its messages' encodings; that of a msgpackl chunk is the array
  header for its length followed by each message's encoding framed as bin.
\<close>

theorem chunking:
  assumes fmt: "(mt e = mtJSONL \<and> f = JSON \<and> (\<forall>ch. bytes ch = concat (map enc ch)))
              \<or> (mt e = mtMsgpackL \<and> f = Msgpack
                  \<and> (\<forall>ch. bytes ch = WriteArrayHeader x (length ch mod 2 ^ 32)
                                        @ concat (map (\<lambda>m. WriteBytes x (enc m)) ch)))"
      and ne: "msgs \<noteq> []"
      and bd: "Boundary x \<noteq> []"
      and cw: "newCompressor x (compressor e) = Inr cw"
      and enc: "\<forall>m\<in>set msgs. Encode x f (validator e) m = Inr (enc m)"
  shows "(maxItems e \<le> 0 \<or> int (length msgs) \<le> maxItems e \<longrightarrow>
            ToParts x e msgs = Some (Inr (getHeaders e emptyHeader, Inr (cw (bytes msgs))))
          \<and> Header_Get (getHeaders e emptyHeader) ''Content-Type'' = mt e)
       \<and> (0 < maxItems e \<and> maxItems e < int (length msgs) \<longrightarrow>
            (\<exists>chunks.
               concat chunks = msgs
             \<and> length chunks = (length msgs + nat (maxItems e) - 1) div nat (maxItems e)
             \<and> (\<forall>i < length chunks. chunks ! i
                    = take (nat (maxItems e)) (drop (i * nat (maxItems e)) msgs))
             \<and> (\<forall>i < length chunks - 1. length (chunks ! i) = nat (maxItems e))
             \<and> length (last chunks)
                 = (if length msgs mod nat (maxItems e) = 0 then nat (maxItems e)
                    else length msgs mod nat (maxItems e))
             \<and> ToParts x e msgs
                 = Some (Inr (Header_Set (getHeaders e emptyHeader) ''Content-Type''
                                (''multipart/mixed; boundary='' @ Boundary x),
                              Inr (MultipartWrite x (Boundary x)
                                     (map (\<lambda>ch. (getHeaders e emptyHeader, cw (bytes ch)))
                                        chunks))))))"
proof -
  define fn where "fn = (if mt e = mtJSONL then asJSONLArray x e else asMsgpackLArray x e)"
  have fmt': "(mt e = mtJSONL \<and> fn = asJSONLArray x e)
            \<or> (mt e = mtMsgpackL \<and> fn = asMsgpackLArray x e)"
    using fmt by (auto simp: fn_def mt_strings)
  have fn: "fn ch = Inr (bytes ch)" if "set ch \<subseteq> set msgs" for ch
  proof -
    from that enc have e: "\<forall>m\<in>set ch. Encode x f (validator e) m = Inr (enc m)" by blast
    from fmt show ?thesis
    proof (elim disjE conjE)
      assume "mt e = mtJSONL" "f = JSON" "\<forall>ch. bytes ch = concat (map enc ch)"
      with e asJSONLArray_encoded [of ch x e enc] show ?thesis by (simp add: fn_def)
    next
      assume "mt e = mtMsgpackL" "f = Msgpack"
        "\<forall>ch. bytes ch = WriteArrayHeader x (length ch mod 2 ^ 32)
                  @ concat (map (\<lambda>m. WriteBytes x (enc m)) ch)"
      with e asMsgpackLArray_encoded [of ch x e enc] show ?thesis
        by (simp add: fn_def mt_strings)
    qed
  qed
  note tp = line_delimited_ToParts [OF fmt' ne bd]
  show ?thesis
  proof (intro conjI impI)
    assume small: "maxItems e \<le> 0 \<or> int (length msgs) \<le> maxItems e"
    then have "maxItems e < 1 \<or> int (length msgs) \<le> maxItems e" by auto
    with tp have "ToParts x e msgs
        = Some (Inr (getHeaders e emptyHeader, compressed x e (fn msgs)))" by simp
    then show "ToParts x e msgs = Some (Inr (getHeaders e emptyHeader, Inr (cw (bytes msgs))))"
      by (simp add: fn [of msgs] compressed_written [OF cw])
    show "Header_Get (getHeaders e emptyHeader) ''Content-Type'' = mt e"
      by (simp add: Header_Get_def getHeaders_def Header_Set_def Let_def)
  next
    assume big: "0 < maxItems e \<and> maxItems e < int (length msgs)"
    define c where "c = nat (maxItems e)"
    have c: "0 < c" using big by (simp add: c_def)
    have notsmall: "\<not> (maxItems e < 1 \<or> int (length msgs) \<le> maxItems e)" using big by auto
    have part: "chunkPart x e fn ch = Inr (getHeaders e emptyHeader, cw (bytes ch))"
      if "ch \<in> set (chunksOf c msgs)" for ch
      using chunkPart_written [of x e cw fn ch "bytes ch"] cw fn [OF set_chunksOf [OF c that]]
      by simp
    have wp: "writeParts (chunkPart x e fn) (chunksOf c msgs)
        = Inr (map (\<lambda>ch. (getHeaders e emptyHeader, cw (bytes ch))) (chunksOf c msgs))"
      by (rule writeParts_map) (simp add: part)
    have body: "ToParts x e msgs
        = Some (Inr (Header_Set (getHeaders e emptyHeader) ''Content-Type''
                       (''multipart/mixed; boundary='' @ Boundary x),
                     Inr (MultipartWrite x (Boundary x)
                            (map (\<lambda>ch. (getHeaders e emptyHeader, cw (bytes ch)))
                               (chunksOf c msgs)))))"
      using tp notsmall by (simp add: c_def [symmetric] wp closeMultipart_def)
    show "\<exists>chunks.
               concat chunks = msgs
             \<and> length chunks = (length msgs + nat (maxItems e) - 1) div nat (maxItems e)
             \<and> (\<forall>i < length chunks. chunks ! i
                    = take (nat (maxItems e)) (drop (i * nat (maxItems e)) msgs))
             \<and> (\<forall>i < length chunks - 1. length (chunks ! i) = nat (maxItems e))
             \<and> length (last chunks)
                 = (if length msgs mod nat (maxItems e) = 0 then nat (maxItems e)
                    else length msgs mod nat (maxItems e))
             \<and> ToParts x e msgs
                 = Some (Inr (Header_Set (getHeaders e emptyHeader) ''Content-Type''
                                (''multipart/mixed; boundary='' @ Boundary x),
                              Inr (MultipartWrite x (Boundary x)
                                     (map (\<lambda>ch. (getHeaders e emptyHeader, cw (bytes ch)))
                                        chunks))))"
      unfolding c_def [symmetric]
    proof (intro exI [of _ "chunksOf c msgs"] conjI)
      show "concat (chunksOf c msgs) = msgs" by (rule concat_chunksOf [OF c])
      show "length (chunksOf c msgs) = (length msgs + c - 1) div c"
        by (rule length_chunksOf [OF c])
      show "\<forall>i < length (chunksOf c msgs). chunksOf c msgs ! i = take c (drop (i * c) msgs)"
        using nth_chunksOf [OF c] by blast
      show "\<forall>i < length (chunksOf c msgs) - 1. length (chunksOf c msgs ! i) = c"
        using chunk_sizes [OF c ne] by blast
      show "length (last (chunksOf c msgs))
          = (if length msgs mod c = 0 then c else length msgs mod c)"
        using chunk_sizes [OF c ne] by blast
      show "ToParts x e msgs
        = Some (Inr (Header_Set (getHeaders e emptyHeader) ''Content-Type''
                       (''multipart/mixed; boundary='' @ Boundary x),
                     Inr (MultipartWrite x (Boundary x)
                            (map (\<lambda>ch. (getHeaders e emptyHeader, cw (bytes ch)))
                               (chunksOf c msgs)))))"
        by (rule body)
    qed
  qed
qed


lemma sample_ext_sel:
  "ParseMediaType sample_ext = sample_ParseMediaType"
  "ParseFloat sample_ext = sample_ParseFloat"
  "TrimSpace sample_ext = sample_TrimSpace"
  "ToLower sample_ext = sample_ToLower"
  "WhichStyle sample_ext = sample_WhichStyle"
  "FriendlyName sample_ext = sample_FriendlyName"
  "StringToMessageType sample_ext = sample_StringToMessageType"
  "Validate sample_ext = sample_Validate"
  "Encode sample_ext = sample_Encode"
  "Decode sample_ext = sample_Decode"
  "NewGzipWriter sample_ext = sample_Writer ''GZ''"
  "NewFlateWriter sample_ext = sample_Writer ''FL''"
  "NewZlibWriter sample_ext = sample_Writer ''ZL''"
  "NewGzipReader sample_ext = sample_Reader ''GZ''"
  "NewFlateReader sample_ext = sample_Reader ''FL''"
  "NewZlibReader sample_ext = sample_Reader ''ZL''"
  "Boundary sample_ext = ''BOUNDARY''"
  "MultipartWrite sample_ext = sample_MultipartWrite"
  "MultipartRead sample_ext = sample_MultipartRead"
  "WriteArrayHeader sample_ext = (\<lambda>n. [char_of n])"
  "WriteBytes sample_ext = (\<lambda>b. char_of (length b) # b)"
  "ReadArrayHeader sample_ext = sample_ReadArrayHeader"
  "ReadBytes sample_ext = sample_ReadBytes"
  "ScanLines sample_ext = sample_ScanLines"
  "SliceStable sample_ext = sample_SliceStable"
  by (simp_all add: sample_ext_def)

theorem chunking_witness:
  "ToParts sample_ext sampleJSONLEncoder [sampleMessage1, sampleMessage2, sampleMessage3]
     = Some (Inr (Header_Set (getHeaders sampleJSONLEncoder emptyHeader) ''Content-Type''
                    ''multipart/mixed; boundary=BOUNDARY'',
                  Inr (sample_MultipartWrite ''BOUNDARY''
                         [(getHeaders sampleJSONLEncoder emptyHeader,
                           ''GZ'' @ [CHR ''1'', CHR 0x0A, CHR ''2'', CHR 0x0A]),
                          (getHeaders sampleJSONLEncoder emptyHeader,
                           ''GZ'' @ [CHR ''3'', CHR 0x0A])])))
   \<and> ToParts sample_ext (sampleJSONLEncoder\<lparr>maxItems := 3\<rparr>)
       [sampleMessage1, sampleMessage2, sampleMessage3]
     = Some (Inr (getHeaders (sampleJSONLEncoder\<lparr>maxItems := 3\<rparr>) emptyHeader,
                  Inr (''GZ'' @ [CHR ''1'', CHR 0x0A, CHR ''2'', CHR 0x0A, CHR ''3'', CHR 0x0A])))"
proof -
  let ?M = "[sampleMessage1, sampleMessage2, sampleMessage3]"
  let ?e = "sampleJSONLEncoder"
  let ?e3 = "sampleJSONLEncoder\<lparr>maxItems := 3\<rparr>"
  define enc where "enc = (\<lambda>m. if m = sampleMessage1 then [CHR ''1'', CHR 0x0A]
      else if m = sampleMessage2 then [CHR ''2'', CHR 0x0A] else [CHR ''3'', CHR 0x0A])"
  define bytes where "bytes = (\<lambda>ch :: message list. concat (map enc ch))"
  define cw where "cw = (\<lambda>b :: bytes. ''GZ'' @ b)"
  have d12: "sampleMessage1 \<noteq> sampleMessage2" and d13: "sampleMessage1 \<noteq> sampleMessage3"
    and d23: "sampleMessage2 \<noteq> sampleMessage3"
    by (simp_all add: sampleMessage1_def sampleMessage2_def sampleMessage3_def)
  have fmt: "\<And>e. mt e = mtJSONL \<Longrightarrow>
      (mt e = mtJSONL \<and> JSON = JSON \<and> (\<forall>ch. bytes ch = concat (map enc ch)))
      \<or> (mt e = mtMsgpackL \<and> JSON = Msgpack
          \<and> (\<forall>ch. bytes ch = WriteArrayHeader sample_ext (length ch mod 2 ^ 32)
                                @ concat (map (\<lambda>m. WriteBytes sample_ext (enc m)) ch)))"
    by (simp add: bytes_def)
  have ne: "?M \<noteq> []" by simp
  have bd: "Boundary sample_ext \<noteq> []" by (simp add: sample_ext_sel)
  have cwe: "\<And>e. compressor e = GzipWriterLevel (- 1) \<Longrightarrow>
      newCompressor sample_ext (compressor e) = Inr cw"
    by (simp add: newCompressor_def sample_ext_sel sample_Writer_def cw_def fun_eq_iff)
  have encs: "\<And>e. validator e = [] \<Longrightarrow>
      \<forall>m\<in>set ?M. Encode sample_ext JSON (validator e) m = Inr (enc m)"
    by (simp add: sample_ext_sel sample_Encode_def sample_Validate_def enc_def d12 d13 d23
        d12 [symmetric] d13 [symmetric] d23 [symmetric])
      (simp add: sampleMessage1_def sampleMessage2_def sampleMessage3_def)
  have m: "mt ?e = mtJSONL" "mt ?e3 = mtJSONL"
    "compressor ?e = GzipWriterLevel (- 1)" "compressor ?e3 = GzipWriterLevel (- 1)"
    "validator ?e = []" "validator ?e3 = []"
    by (simp_all add: sampleJSONLEncoder_def)
  note big = chunking [OF fmt [OF m(1)] ne bd cwe [OF m(3)] encs [OF m(5)]]
  note small = chunking [OF fmt [OF m(2)] ne bd cwe [OF m(4)] encs [OF m(6)]]
  have c2: "chunksOf 2 ?M = [[sampleMessage1, sampleMessage2], [sampleMessage3]]"
    by (simp add: chunksOf.simps)
  from big obtain chunks where
    ch: "\<forall>i < length chunks. chunks ! i
            = take (nat (maxItems ?e)) (drop (i * nat (maxItems ?e)) ?M)"
    and len: "length chunks = (length ?M + nat (maxItems ?e) - 1) div nat (maxItems ?e)"
    and tp: "ToParts sample_ext ?e ?M
                 = Some (Inr (Header_Set (getHeaders ?e emptyHeader) ''Content-Type''
                                (''multipart/mixed; boundary='' @ Boundary sample_ext),
                              Inr (MultipartWrite sample_ext (Boundary sample_ext)
                                     (map (\<lambda>ch. (getHeaders ?e emptyHeader, cw (bytes ch)))
                                        chunks))))"
    by (auto simp: sampleJSONLEncoder_def)
  have l2: "length chunks = 2" using len by (simp add: sampleJSONLEncoder_def)
  have "chunks = [chunks ! 0, chunks ! 1]"
    using l2 by (auto simp: list_eq_iff_nth_eq nth_Cons split: nat.splits)
  with ch l2 have chunks: "chunks = [[sampleMessage1, sampleMessage2], [sampleMessage3]]"
    by (simp add: sampleJSONLEncoder_def)
  have a: "ToParts sample_ext ?e ?M
     = Some (Inr (Header_Set (getHeaders ?e emptyHeader) ''Content-Type''
                    ''multipart/mixed; boundary=BOUNDARY'',
                  Inr (sample_MultipartWrite ''BOUNDARY''
                         [(getHeaders ?e emptyHeader,
                           ''GZ'' @ [CHR ''1'', CHR 0x0A, CHR ''2'', CHR 0x0A]),
                          (getHeaders ?e emptyHeader, ''GZ'' @ [CHR ''3'', CHR 0x0A])])))"
    unfolding tp chunks
    by (simp add: sample_ext_sel cw_def bytes_def enc_def d12 d13 d23
        d12 [symmetric] d13 [symmetric] d23 [symmetric])
  from small have b: "ToParts sample_ext ?e3 ?M
     = Some (Inr (getHeaders ?e3 emptyHeader,
                  Inr (''GZ'' @ [CHR ''1'', CHR 0x0A, CHR ''2'', CHR 0x0A, CHR ''3'', CHR 0x0A])))"
    by (simp add: sampleJSONLEncoder_def cw_def bytes_def enc_def d12 d13 d23
        d12 [symmetric] d13 [symmetric] d23 [symmetric])
  from a b show ?thesis by simp
qed

section \<open>Error timing of the octet-stream encoder\<close>

lemmas sample_defs =
  sample_ext_sel sample_ParseMediaType_def sample_param_def sample_TrimSpace_def
  sample_ToLower_def asciiSpace_def sample_ParseFloat_def sample_WhichStyle_def
  sample_FriendlyName_def sample_StringToMessageType_def messageTypeNames_def
  sample_Validate_def sample_Encode_def sample_Decode_def sample_Writer_def sample_Reader_def
  sample_partHeader_def sample_MultipartWrite_def sample_MultipartRead_def
  sample_ReadArrayHeader_def sample_ReadBytes_def sample_ScanLines_def

lemma writeParts_first_error:
  "writeParts f pre = Inr ps \<Longrightarrow> f m = Inl err \<Longrightarrow> writeParts f (pre @ m # post) = Inl err"
  by (induction pre arbitrary: ps) (auto split: sum.splits)

lemma toHeadersForm_invalid:
  "Validate x validators msg = Some err \<Longrightarrow> toHeadersForm x msg typ validators = Inl err"
  by (simp add: toHeadersForm_def)

text \<open>
  Claim C10. With the octet-stream format, a message whose projection to headers fails
  (its validation reports an error) is reported at different times: with that message
  alone, \<^verbatim>\<open>ToParts\<close> itself returns the error and neither headers nor body; as the
  first failing message of a list of two or more, \<^verbatim>\<open>ToParts\<close> returns headers and
  a body without error, and reading the body to its end yields that error. With two or
  more messages \<^verbatim>\<open>ToParts\<close> never returns an error.
\<close>

theorem octet_stream_error_timing:
  assumes oct: "mt e = mtOctetStream"
      and bad: "Validate x (validator e) m = Some err"
  shows "ToParts x e [m] = Some (Inl err)
       \<and> (pre @ post \<noteq> [] \<and> (\<exists>ps. writeParts (octetPart x e) pre = Inr ps) \<longrightarrow>
            ToParts x e (pre @ m # post)
              = Some (Inr (setBoundary (getHeaders e emptyHeader) (Boundary x), Inl err)))
       \<and> (2 \<le> length msgs \<longrightarrow>
            (\<exists>body. ToParts x e msgs
                      = Some (Inr (setBoundary (getHeaders e emptyHeader) (Boundary x), body))))"
proof (intro conjI impI)
  from oct bad show "ToParts x e [m] = Some (Inl err)"
    by (simp add: ToParts_def asOctetStream_def toHeadersForm_invalid mt_strings)
next
  assume a: "pre @ post \<noteq> [] \<and> (\<exists>ps. writeParts (octetPart x e) pre = Inr ps)"
  then obtain ps where ps: "writeParts (octetPart x e) pre = Inr ps" by blast
  have "octetPart x e m = Inl err"
    using bad by (simp add: octetPart_def toHeadersForm_invalid)
  from writeParts_first_error [OF ps this]
  have w: "writeParts (octetPart x e) (pre @ m # post) = Inl err" .
  have len: "length (pre @ m # post) \<noteq> 1" using a by (cases pre; cases post) simp_all
  show "ToParts x e (pre @ m # post)
      = Some (Inr (setBoundary (getHeaders e emptyHeader) (Boundary x), Inl err))"
    using oct len w
    by (simp add: ToParts_def asOctetStream_def asOctetStreamMultiPart_def closeMultipart_def
        finish_def mt_strings del: length_append)
next
  assume "2 \<le> length msgs"
  then have "length msgs \<noteq> 1" "msgs \<noteq> []" by auto
  with oct show "\<exists>body. ToParts x e msgs
      = Some (Inr (setBoundary (getHeaders e emptyHeader) (Boundary x), body))"
    by (simp add: ToParts_def asOctetStream_def asOctetStreamMultiPart_def finish_def mt_strings)
qed

theorem octet_stream_error_timing_witness:
  "ToParts sample_ext sampleOctetEncoder [invalidMessage]
     = Some (Inl (LibraryError ''invalid message type''))
   \<and> ToParts sample_ext sampleOctetEncoder ([sampleMessage2] @ invalidMessage # [])
     = Some (Inr (setBoundary (getHeaders sampleOctetEncoder emptyHeader) (Boundary sample_ext),
                  Inl (LibraryError ''invalid message type'')))"
proof -
  have 1: "mt sampleOctetEncoder = mtOctetStream" by (simp add: sampleOctetEncoder_def)
  have 2: "Validate sample_ext (validator sampleOctetEncoder) invalidMessage
             = Some (LibraryError ''invalid message type'')"
    by (simp add: sample_ext_sel sample_Validate_def invalidMessage_def zeroMessage_def)
  have 3: "\<exists>ps. writeParts (octetPart sample_ext sampleOctetEncoder) [sampleMessage2] = Inr ps"
    by (simp add: octetPart_def toHeadersForm_def sample_ext_sel sample_Validate_def
        sampleMessage2_def compressed_def newCompressor_def sampleOctetEncoder_def asPart_def
        Let_def)
  from octet_stream_error_timing [OF 1 2, of "[sampleMessage2]" "[]" "[]"] 3
  show ?thesis by simp
qed

section \<open>Multipart decoding\<close>

lemma decodeParts_all:
  "list_all2 (\<lambda>p ms. fromPart x (fst p) (Inr (snd p)) vs = Inr ms) parts results \<Longrightarrow>
     decodeParts x vs parts final rv
       = (case final of None \<Rightarrow> Inr (rv @ concat results) | Some err \<Rightarrow> Inl err)"
proof (induction parts arbitrary: results rv)
  case Nil
  then show ?case by (cases final) simp_all
next
  case (Cons p parts)
  then obtain ms rest where r: "results = ms # rest"
    and p: "fromPart x (fst p) (Inr (snd p)) vs = Inr ms"
    and rest: "list_all2 (\<lambda>p ms. fromPart x (fst p) (Inr (snd p)) vs = Inr ms) parts rest"
    by (auto simp: list_all2_Cons1)
  from Cons.IH [OF rest, of "rv @ ms"] p r show ?case
    by (simp split: option.splits)
qed

lemma decodeParts_first_failure:
  assumes "list_all2 (\<lambda>p ms. fromPart x (fst p) (Inr (snd p)) vs = Inr ms) (take i parts) results"
      and "i < length parts"
      and "fromPart x (fst (parts ! i)) (Inr (snd (parts ! i))) vs = Inl err"
  shows "decodeParts x vs parts final rv = Inl err"
  using assms
proof (induction parts arbitrary: i results rv)
  case Nil
  then show ?case by simp
next
  case (Cons p parts)
  show ?case
  proof (cases i)
    case 0
    with Cons.prems show ?thesis by simp
  next
    case (Suc j)
    with Cons.prems obtain ms rest where
      p: "fromPart x (fst p) (Inr (snd p)) vs = Inr ms"
      and rest: "list_all2 (\<lambda>p ms. fromPart x (fst p) (Inr (snd p)) vs = Inr ms) (take j parts) rest"
      by (auto simp: list_all2_Cons1)
    from Cons.prems Suc have "j < length parts"
      "fromPart x (fst (parts ! j)) (Inr (snd (parts ! j))) vs = Inl err" by simp_all
    from Cons.IH [OF rest this] p show ?thesis by simp
  qed
qed

text \<open>
  Claim C5, as amended. For a multipart Content-Type, \<^verbatim>\<open>DecodeFromParts\<close> first
  requires the boundary parameter (a missing or empty one is the missing-boundary error,
  whatever the subtype), then the subtype mixed (any other subtype that carries a
  boundary is the unsupported-media-type error). The parts are decoded in the order the
  multipart reader yields them and their messages are concatenated in that order; the
  first part that fails to decode, or an error of the multipart reader after the parts,
  is returned and no messages are.
\<close>

theorem multipart_decoding:
  assumes ct: "ParseMediaType x (Header_Get headers ''Content-Type'') = Inr (mediaType, params)"
      and mp: "strings_HasPrefix mediaType ''multipart/''"
  shows "(param params ''boundary'' = [] \<longrightarrow>
            DecodeFromParts x headers body vs
              = Inl (MissingBoundary (Header_Get headers ''Content-Type'')))
       \<and> (param params ''boundary'' \<noteq> [] \<and> mediaType \<noteq> ''multipart/mixed'' \<longrightarrow>
            DecodeFromParts x headers body vs = Inl (UnsupportedMediaType mediaType))
       \<and> (param params ''boundary'' \<noteq> [] \<and> mediaType = ''multipart/mixed'' \<and> body = Inr b
            \<and> MultipartRead x (param params ''boundary'') b = (parts, final) \<longrightarrow>
            (list_all2 (\<lambda>p ms. fromPart x (fst p) (Inr (snd p)) vs = Inr ms) parts results
               \<and> final = None \<longrightarrow>
               DecodeFromParts x headers body vs = Inr (concat results))
          \<and> (list_all2 (\<lambda>p ms. fromPart x (fst p) (Inr (snd p)) vs = Inr ms) parts results
               \<and> final = Some err \<longrightarrow>
               DecodeFromParts x headers body vs = Inl err)
          \<and> (list_all2 (\<lambda>p ms. fromPart x (fst p) (Inr (snd p)) vs = Inr ms) (take i parts) results
               \<and> i < length parts
               \<and> fromPart x (fst (parts ! i)) (Inr (snd (parts ! i))) vs = Inl err \<longrightarrow>
               DecodeFromParts x headers body vs = Inl err))"
  using ct mp
  by (auto simp: DecodeFromParts_def readMultipart_def decodeParts_all
      decodeParts_first_failure)

text \<open>
  The claim as stated fails where both conditions meet: a multipart subtype other than
  mixed without a boundary is reported as a missing boundary, not as an unsupported
  media type.
\<close>

theorem multipart_decoding_counterexample:
  "DecodeFromParts sample_ext (emptyHeader(''Content-Type'' := [''multipart/related''])) (Inr []) []
     = Inl (MissingBoundary ''multipart/related'')
   \<and> DecodeFromParts sample_ext (emptyHeader(''Content-Type'' := [''multipart/related''])) (Inr []) []
     \<noteq> Inl (UnsupportedMediaType ''multipart/related'')"
  by (simp add: DecodeFromParts_def sample_defs Header_Get_def emptyHeader_def param_def
      strings_HasPrefix_def)


lemma sample_parse_multipart:
  "sample_ParseMediaType ''multipart/mixed; boundary=BOUNDARY''
     = Inr (''multipart/mixed'', [(''boundary'', ''BOUNDARY'')])"
  by (simp add: sample_defs strings_SplitN2_def)

lemma sample_parse_json:
  "sample_ParseMediaType ''application/wrp+json'' = Inr (''application/wrp+json'', [])"
  by (simp add: sample_defs)

lemma sample_fromPart_json:
  "fromPart sample_ext (Header_Set emptyHeader ''Content-Type'' mtJSON) (Inr [c, CHR 0x0A]) []
     = fromFormat sample_ext JSON (Inr [c, CHR 0x0A]) []"
  by (simp add: fromPart_def handleEncoding_def Header_Set_def Header_Get_def emptyHeader_def
      sample_ext_sel sample_parse_json mt_strings strings_TrimPrefix_def strings_HasPrefix_def)

theorem multipart_decoding_witness:
  "DecodeFromParts sample_ext
     (emptyHeader(''Content-Type'' := [''multipart/mixed; boundary=BOUNDARY'']))
     (Inr (sample_MultipartWrite ''BOUNDARY''
             [(Header_Set emptyHeader ''Content-Type'' mtJSON, [CHR ''1'', CHR 0x0A]),
              (Header_Set emptyHeader ''Content-Type'' mtJSON, [CHR ''3'', CHR 0x0A])])) []
   = Inr (concat [[sampleMessage1], [sampleMessage3]])"
proof -
  let ?h = "emptyHeader(''Content-Type'' := [''multipart/mixed; boundary=BOUNDARY''])"
  let ?parts = "[(Header_Set emptyHeader ''Content-Type'' mtJSON, [CHR ''1'', CHR 0x0A]),
                 (Header_Set emptyHeader ''Content-Type'' mtJSON, [CHR ''3'', CHR 0x0A])]"
  let ?b = "sample_MultipartWrite ''BOUNDARY'' ?parts"
  have ct: "ParseMediaType sample_ext (Header_Get ?h ''Content-Type'')
      = Inr (''multipart/mixed'', [(''boundary'', ''BOUNDARY'')])"
    by (simp add: Header_Get_def sample_ext_sel sample_parse_multipart)
  have mp: "strings_HasPrefix ''multipart/mixed'' ''multipart/''"
    by (simp add: strings_HasPrefix_def)
  have rd: "MultipartRead sample_ext (param [(''boundary'', ''BOUNDARY'')] ''boundary'') ?b
      = (?parts, None)"
    by (simp add: sample_ext_sel sample_MultipartRead_def sample_MultipartWrite_def param_def
        Header_Get_def Header_Set_def emptyHeader_def mt_strings sample_partHeader_def)
  have ok: "list_all2 (\<lambda>p ms. fromPart sample_ext (fst p) (Inr (snd p)) [] = Inr ms) ?parts
      [[sampleMessage1], [sampleMessage3]]"
    by (simp add: sample_fromPart_json fromFormat_def sample_ext_sel sample_Decode_def)
  from multipart_decoding [OF ct mp, of "Inr ?b" "[]" ?b ?parts None
      "[[sampleMessage1], [sampleMessage3]]"] rd ok
  show ?thesis by (simp add: param_def)
qed

section \<open>Integer headers that do not parse\<close>

lemmas table_defs =
  messageTypeHeader_def transactionUuidHeader_def statusHeader_def rdrHeader_def pathHeader_def
  sourceHeader_def destinationHeader_def acceptHeader_def metadataHeader_def partnerIdHeader_def
  sessionIdHeader_def headersHeader_def serviceNameHeader_def urlHeader_def

lemma hdr_Get_dropKeys_other:
  "set t \<inter> set s = {} \<Longrightarrow> hdr_Get t (dropKeys s h) = hdr_Get t h"
  by (induction t) (auto simp: dropKeys_def Header_Get_def)

lemma hdr_Values_dropKeys_other:
  "set t \<inter> set s = {} \<Longrightarrow> hdr_Values t (dropKeys s h) = hdr_Values t h"
  by (induction t) (auto simp: dropKeys_def Header_Values_def)

lemma hdr_Get_dropKeys_same: "set t \<subseteq> set s \<Longrightarrow> hdr_Get t (dropKeys s h) = []"
  by (induction t) (auto simp: dropKeys_def Header_Get_def)

lemma status_disjoint:
  "set messageTypeHeader \<inter> set statusHeader = {}"
  "set transactionUuidHeader \<inter> set statusHeader = {}"
  "set rdrHeader \<inter> set statusHeader = {}"
  "set pathHeader \<inter> set statusHeader = {}"
  "set sourceHeader \<inter> set statusHeader = {}"
  "set destinationHeader \<inter> set statusHeader = {}"
  "set acceptHeader \<inter> set statusHeader = {}"
  "set metadataHeader \<inter> set statusHeader = {}"
  "set partnerIdHeader \<inter> set statusHeader = {}"
  "set sessionIdHeader \<inter> set statusHeader = {}"
  "set headersHeader \<inter> set statusHeader = {}"
  "set serviceNameHeader \<inter> set statusHeader = {}"
  "set urlHeader \<inter> set statusHeader = {}"
  by (simp_all add: table_defs)

lemma rdr_disjoint:
  "set messageTypeHeader \<inter> set rdrHeader = {}"
  "set transactionUuidHeader \<inter> set rdrHeader = {}"
  "set statusHeader \<inter> set rdrHeader = {}"
  "set pathHeader \<inter> set rdrHeader = {}"
  "set sourceHeader \<inter> set rdrHeader = {}"
  "set destinationHeader \<inter> set rdrHeader = {}"
  "set acceptHeader \<inter> set rdrHeader = {}"
  "set metadataHeader \<inter> set rdrHeader = {}"
  "set partnerIdHeader \<inter> set rdrHeader = {}"
  "set sessionIdHeader \<inter> set rdrHeader = {}"
  "set headersHeader \<inter> set rdrHeader = {}"
  "set serviceNameHeader \<inter> set rdrHeader = {}"
  "set urlHeader \<inter> set rdrHeader = {}"
  by (simp_all add: table_defs)

lemma readInt_unparsable:
  "ParseInt (hdr_Get key h) = None \<Longrightarrow> readInt key h target = target"
  by (simp add: readInt_def)

lemma headerFields_status_unparsable:
  assumes "ParseInt (hdr_Get statusHeader h) = None"
  shows "headerFields x (dropKeys statusHeader h) = headerFields x h"
  using assms
  by (simp add: headerFields_def readString_def readStrings_def readInt_def readHashmap_def
      readHeaders_def hdr_Get_dropKeys_other hdr_Values_dropKeys_other hdr_Get_dropKeys_same
      status_disjoint)

lemma headerFields_rdr_unparsable:
  assumes "ParseInt (hdr_Get rdrHeader h) = None"
  shows "headerFields x (dropKeys rdrHeader h) = headerFields x h"
  using assms
  by (simp add: headerFields_def readString_def readStrings_def readInt_def readHashmap_def
      readHeaders_def hdr_Get_dropKeys_other hdr_Values_dropKeys_other hdr_Get_dropKeys_same
      rdr_disjoint)

lemma fromOctetStream_dropKeys:
  "headerFields x (dropKeys key h) = headerFields x h \<Longrightarrow>
     fromOctetStream x h body vs = fromOctetStream x (dropKeys key h) body vs"
  by (simp only: fromOctetStream_def fromHeaders_def)

text \<open>
  Claim C8, as amended. During octet-stream decode a Status or
  request-delivery-response header whose value does not parse as an integer is ignored:
  the field stays unset and the part decodes exactly as it would without that field's
  headers. The other failures of decoding a part are returned: an unsupported or
  failing content encoding, an unparsable Content-Type, a failed read of the body, a
  validation error. It is not the only error the package drops: negotiation keeps
  \<open>q = 1\<close> for an Accept entry whose \<open>q\<close> parameter does not parse.
\<close>

theorem unparsable_integer_header_ignored:
  "(ParseInt (hdr_Get statusHeader h) = None \<longrightarrow>
      Status (headerFields x h) = None
    \<and> fromOctetStream x h body vs = fromOctetStream x (dropKeys statusHeader h) body vs)
   \<and> (ParseInt (hdr_Get rdrHeader h) = None \<longrightarrow>
      RequestDeliveryResponse (headerFields x h) = None
    \<and> fromOctetStream x h body vs = fromOctetStream x (dropKeys rdrHeader h) body vs)
   \<and> (handleEncoding x h body = Inl err \<longrightarrow> fromPart x h body vs = Inl err)
   \<and> (handleEncoding x h body = Inr body' \<and> ParseMediaType x (Header_Get h ''Content-Type'') = Inl err
        \<longrightarrow> fromPart x h body vs = Inl (InvalidContentType err))
   \<and> fromOctetStream x h (Inl err) vs = Inl (FailedToReadBody err)
   \<and> (Validate x vs ((headerFields x h)\<lparr>Payload := payload\<rparr>) = Some err
        \<longrightarrow> fromOctetStream x h (Inr payload) vs = Inl err)
   \<and> (map_of params ''q'' = Some qstr \<and> ParseFloat x qstr = None
        \<longrightarrow> acceptEntry v params x = \<lparr> Value = v, Params = params, Q = 1 \<rparr>)"
proof (intro conjI impI)
  assume a: "ParseInt (hdr_Get statusHeader h) = None"
  then show "Status (headerFields x h) = None"
    by (simp add: headerFields_def readInt_def)
  from a show "fromOctetStream x h body vs = fromOctetStream x (dropKeys statusHeader h) body vs"
    by (intro fromOctetStream_dropKeys headerFields_status_unparsable)
next
  assume a: "ParseInt (hdr_Get rdrHeader h) = None"
  then show "RequestDeliveryResponse (headerFields x h) = None"
    by (simp add: headerFields_def readInt_def)
  from a show "fromOctetStream x h body vs = fromOctetStream x (dropKeys rdrHeader h) body vs"
    by (intro fromOctetStream_dropKeys headerFields_rdr_unparsable)
next
  assume "handleEncoding x h body = Inl err"
  then show "fromPart x h body vs = Inl err" by (simp add: fromPart_def)
next
  assume "handleEncoding x h body = Inr body' \<and> ParseMediaType x (Header_Get h ''Content-Type'') = Inl err"
  then show "fromPart x h body vs = Inl (InvalidContentType err)" by (simp add: fromPart_def)
next
  show "fromOctetStream x h (Inl err) vs = Inl (FailedToReadBody err)"
    by (simp add: fromOctetStream_def fromHeaders_def)
next
  assume "Validate x vs ((headerFields x h)\<lparr>Payload := payload\<rparr>) = Some err"
  then show "fromOctetStream x h (Inr payload) vs = Inl err"
    by (simp add: fromOctetStream_def fromHeaders_def)
next
  assume "map_of params ''q'' = Some qstr \<and> ParseFloat x qstr = None"
  then show "acceptEntry v params x = \<lparr> Value = v, Params = params, Q = 1 \<rparr>"
    by (simp add: acceptEntry_def)
qed

lemma sample_parse_q_abc:
  "sample_ParseMediaType ''application/json;q=abc'' = Inr (''application/json'', [(''q'', ''abc'')])"
  by (simp add: sample_defs strings_SplitN2_def)

text \<open>
  The claim as stated fails on its last clause: negotiation succeeds on an Accept entry
  whose \<open>q\<close> value \<^verbatim>\<open>strconv.ParseFloat\<close> rejects, so that error is dropped too.
\<close>

theorem unparsable_integer_header_ignored_counterexample:
  "ParseFloat sample_ext ''abc'' = None
   \<and> examineRequest sample_ext (emptyHeader(''Accept'' := [''application/json;q=abc'']))
       = Inr ''application/json''"
  by (simp add: examineRequest_def Header_Get_def emptyHeader_def sample_ext_sel
      sample_parse_q_abc sample_TrimSpace_def asciiSpace_def sample_ParseFloat_def
      acceptEntry_def sample_SliceStable_def sample_ToLower_def param_def toMediaType_def
      mediaTypeOf_def mtUnknown_def mtFromString_def media_type_strings)

theorem unparsable_integer_header_ignored_witness:
  "Status (headerFields sample_ext (emptyHeader(''X-Xmidt-Status'' := [''20x''],
                                                 ''X-Midt-Status'' := [''200'']))) = None
   \<and> fromOctetStream sample_ext
        (emptyHeader(''X-Xmidt-Status'' := [''20x''], ''X-Midt-Status'' := [''200'']))
        (Inr ''payload'') []
     = fromOctetStream sample_ext
        (dropKeys statusHeader
           (emptyHeader(''X-Xmidt-Status'' := [''20x''], ''X-Midt-Status'' := [''200''])))
        (Inr ''payload'') []
   \<and> acceptEntry ''application/json'' [(''q'', ''abc'')] sample_ext
     = \<lparr> Value = ''application/json'', Params = [(''q'', ''abc'')], Q = 1 \<rparr>"
proof -
  let ?h = "emptyHeader(''X-Xmidt-Status'' := [''20x''], ''X-Midt-Status'' := [''200''])"
  have 1: "ParseInt (hdr_Get statusHeader ?h) = None"
    by (simp add: statusHeader_def Header_Get_def emptyHeader_def ParseInt_def isDigit_def)
  have 2: "map_of [(''q'', ''abc'')] ''q'' = Some ''abc'' \<and> ParseFloat sample_ext ''abc'' = None"
    by (simp add: sample_ext_sel sample_ParseFloat_def)
  from unparsable_integer_header_ignored
    [of ?h sample_ext "Inr ''payload''" "[]" _ _ _ "[(''q'', ''abc'')]" "''abc''" "''application/json''"]
    1 2
  show ?thesis by simp
qed

section \<open>Content negotiation\<close>

lemma toMediaType_not_unknown: "toMediaType name sty = Inr got \<Longrightarrow> got \<noteq> mtUnknown"
  by (auto simp: toMediaType_def mtUnknown_def mtFromString_def media_type_strings
      split: option.splits if_splits)

lemma mediaTypeOf_known:
  "mediaTypeOf (toMediaType name sty) \<noteq> mtUnknown \<longleftrightarrow> (\<exists>got. toMediaType name sty = Inr got)"
  by (cases "toMediaType name sty") (auto simp: mediaTypeOf_def dest: toMediaType_not_unknown)

lemma scanAccepted_find:
  "scanAccepted x cts w =
     (case find (\<lambda>a. Value a \<noteq> ''*/*'' \<and> Value a \<noteq> ''application/*''
                     \<and> (\<exists>got. toMediaType (Value a) (ToLower x (param (Params a) ''style'')) = Inr got))
             cts of
        Some a \<Rightarrow> toMediaType (Value a) (ToLower x (param (Params a) ''style''))
      | None \<Rightarrow>
          if w \<or> (\<exists>a\<in>set cts. Value a = ''*/*'' \<or> Value a = ''application/*'')
          then Inr MEDIA_TYPE_MSGPACKL else Inl NoAcceptableContentType)"
proof (induction cts arbitrary: w)
  case Nil
  then show ?case by simp
next
  case (Cons ct cts)
  show ?case
  proof (cases "Value ct = ''*/*'' \<or> Value ct = ''application/*''")
    case True
    then show ?thesis
      using Cons.IH [of True] by (auto split: option.splits)
  next
    case False
    show ?thesis
    proof (cases "toMediaType (Value ct) (ToLower x (param (Params ct) ''style''))")
      case (Inl err)
      then have "mediaTypeOf (toMediaType (Value ct) (ToLower x (param (Params ct) ''style''))) = mtUnknown"
        by (simp add: mediaTypeOf_def)
      with False Inl show ?thesis
        using Cons.IH [of w] by (auto simp: Let_def split: option.splits)
    next
      case (Inr got)
      then have "mediaTypeOf (toMediaType (Value ct) (ToLower x (param (Params ct) ''style''))) = got"
        "got \<noteq> mtUnknown"
        by (simp_all add: mediaTypeOf_def toMediaType_not_unknown)
      with False Inr show ?thesis
        by (auto simp: Let_def split: option.splits)
    qed
  qed
qed

lemma parseAccepted_entries:
  "parseAccepted x parts = Inr accepted \<Longrightarrow>
     length accepted = length parts
     \<and> (\<forall>i<length parts. \<exists>name ps. ParseMediaType x (TrimSpace x (parts ! i)) = Inr (name, ps)
                                   \<and> accepted ! i = acceptEntry name ps x)"
proof (induction parts arbitrary: accepted)
  case Nil
  then show ?case by simp
next
  case (Cons part parts)
  then obtain name ps rest where
    p: "ParseMediaType x (TrimSpace x part) = Inr (name, ps)"
    and r: "parseAccepted x parts = Inr rest"
    and a: "accepted = acceptEntry name ps x # rest"
    by (auto split: sum.splits)
  from Cons.IH [OF r] p a show ?case
    by (auto simp: nth_Cons split: nat.splits)
qed









text \<open>
  The sort is as good as the comparison: with finite \<open>q\<close> values the entries are tried
  by descending \<open>q\<close>; a \<open>q\<close> of NaN, which \<^verbatim>\<open>strconv.ParseFloat\<close> accepts, makes
  every comparison with it false, and the insertion sort then moves nothing.
\<close>

lemma sample_parse_accept:
  "sample_ParseMediaType ''application/json;q=0.2'' = Inr (''application/json'', [(''q'', ''0.2'')])"
  "sample_ParseMediaType ''*/*;q=0.5'' = Inr (''*/*'', [(''q'', ''0.5'')])"
  "sample_ParseMediaType ''application/msgpack;q=NaN''
     = Inr (''application/msgpack'', [(''q'', ''NaN'')])"
  "sample_ParseMediaType ''application/jsonl;q=0.8'' = Inr (''application/jsonl'', [(''q'', ''0.8'')])"
  by (simp_all add: sample_defs strings_SplitN2_def)

lemma sample_trim_accept:
  "sample_TrimSpace ''application/json;q=0.2'' = ''application/json;q=0.2''"
  "sample_TrimSpace '' */*;q=0.5'' = ''*/*;q=0.5''"
  "sample_TrimSpace '' application/msgpack;q=NaN'' = ''application/msgpack;q=NaN''"
  "sample_TrimSpace '' application/jsonl;q=0.8'' = ''application/jsonl;q=0.8''"
  by (simp_all add: sample_TrimSpace_def asciiSpace_def)

lemma accept_sorted_by_q:
  "examineRequest sample_ext
     (emptyHeader(''Accept'' := [''application/json;q=0.2, */*;q=0.5, application/jsonl;q=0.8'']))
   = Inr ''application/jsonl''"
  by (simp add: examineRequest_def Header_Get_def sample_ext_sel sample_trim_accept
      sample_parse_accept acceptEntry_def sample_ParseFloat_def sample_SliceStable_def
      byDescendingQ_def sample_ToLower_def param_def toMediaType_def mediaTypeOf_def
      mtUnknown_def mtFromString_def media_type_strings)

lemma accept_nan_left_unsorted:
  "examineRequest sample_ext
     (emptyHeader(''Accept'' :=
        [''application/json;q=0.2, application/msgpack;q=NaN, application/jsonl;q=0.8'']))
   = Inr ''application/json''"
  by (simp add: examineRequest_def Header_Get_def sample_ext_sel sample_trim_accept
      sample_parse_accept acceptEntry_def sample_ParseFloat_def sample_SliceStable_def
      byDescendingQ_def sample_ToLower_def param_def toMediaType_def mediaTypeOf_def
      mtUnknown_def mtFromString_def media_type_strings)









section \<open>Round trip of encoding and decoding\<close>

subsection \<open>Integers, lists and maps in header values\<close>













lemma SplitN2_pair: "c \<notin> set k \<Longrightarrow> strings_SplitN2 (k @ c # v) c = [k, v]"
  by (simp add: strings_SplitN2_def takeWhile_append1 dropWhile_append3 takeWhile_tail dropWhile_append)

lemma update_fresh: "k \<notin> fst ` set al \<Longrightarrow> AList.update k v al = al @ [(k, v)]"
  by (induction al) auto

lemma hashmapEntries_roundtrip:
  assumes "distinct (map fst md)"
      and "\<forall>p\<in>set md. CHR '':'' \<notin> set (fst p) \<and> TrimSpace x (fst p) = fst p \<and> TrimSpace x (snd p) = snd p"
      and "fst ` set rv \<inter> fst ` set md = {}"
  shows "hashmapEntries x (map (\<lambda>p. fst p @ '':'' @ snd p) md) rv = rv @ md"
  using assms
proof (induction md arbitrary: rv)
  case Nil
  then show ?case by simp
next
  case (Cons p md)
  obtain k v where p: "p = (k, v)" by (cases p)
  from Cons.prems p have fresh: "k \<notin> fst ` set rv" by auto
  have step: "fst ` set (rv @ [(k, v)]) \<inter> fst ` set md = {}"
    using Cons.prems p by auto
  from Cons.prems p have sp: "strings_SplitN2 (k @ CHR '':'' # v) CHR '':'' = [k, v]"
    by (intro SplitN2_pair) simp
  from Cons.prems p have tr: "TrimSpace x k = k" "TrimSpace x v = v" by simp_all
  from Cons.prems have rest: "distinct (map fst md)"
    "\<forall>p\<in>set md. CHR '':'' \<notin> set (fst p) \<and> TrimSpace x (fst p) = fst p \<and> TrimSpace x (snd p) = snd p"
    by simp_all
  show ?case
    using Cons.IH [OF rest step]
    by (simp add: p sp tr update_fresh [OF fresh])
qed










lemma readHashmap_roundtrip:
  assumes "distinct (map fst md)"
      and "\<forall>p\<in>set md. snd p \<noteq> [] \<and> CHR '':'' \<notin> set (fst p)
             \<and> TrimSpace x (fst p) = fst p \<and> TrimSpace x (snd p) = snd p"
  shows "(if 0 < length (map (\<lambda>p. fst p @ '':'' @ snd p) (filter (\<lambda>p. snd p \<noteq> []) md))
          then hashmapEntries x (map (\<lambda>p. fst p @ '':'' @ snd p) (filter (\<lambda>p. snd p \<noteq> []) md)) []
          else []) = md"
proof -
  have f: "filter (\<lambda>p. snd p \<noteq> []) md = md" using assms(2) by (simp add: filter_id_conv)
  have "hashmapEntries x (map (\<lambda>p. fst p @ '':'' @ snd p) md) [] = [] @ md"
    using assms by (intro hashmapEntries_roundtrip) auto
  then show ?thesis unfolding f by (cases md) simp_all
qed


lemma readHeaders_roundtrip:
  assumes "\<forall>v\<in>set vs. v \<noteq> []"
  shows "filter (\<lambda>v. v \<noteq> []) vs = vs"
  using assms by (simp add: filter_id_conv)

subsection \<open>Reading back the projected headers\<close>




















subsection \<open>Parts, bodies and the whole exchange\<close>












































end
